theory Spec2Isabelle
  imports Main "HOL-Library.AList"
begin

section \<open>Values, dictionaries and errors\<close>

text \<open>
  The services move JSON-like values around: the fields of an address are \<open>str\<close>,
  \<open>int\<close> or \<open>None\<close>, and a recognition item stores a dictionary of two
  dictionaries. A Python \<open>dict\<close> is an association list in insertion order;
  \<open>d[k] = v\<close> is \<open>AList.update\<close> (replace in place, or append) and
  \<open>d.get(k)\<close> is \<open>map_of\<close>.

  Strings are lists of 8-bit characters. The case mappings and \<open>strip\<close> below are
  Python's on ASCII text only: any other character is left as it is, where Python also
  maps the case of letters beyond ASCII and strips the white space beyond ASCII (the
  no-break space, for one). What is proved below about particular strings is about ASCII
  strings.
\<close>

datatype jval = JNone | JStr string | JInt int | JDict "(string \<times> jval) list"

type_synonym jdict = "(string \<times> jval) list"

type_synonym uuid = nat

datatype error =
    ValidationError
  | RuntimeError string
  | HTTPException nat string

definition bindE :: "error + 'a \<Rightarrow> ('a \<Rightarrow> error + 'b) \<Rightarrow> error + 'b" where
  "bindE m f = (case m of Inl e \<Rightarrow> Inl e | Inr x \<Rightarrow> f x)"

fun mapE :: "('a \<Rightarrow> error + 'b) \<Rightarrow> 'a list \<Rightarrow> error + 'b list" where
  "mapE f [] = Inr []"
| "mapE f (x # xs) =
     (case f x of
        Inl e \<Rightarrow> Inl e
      | Inr y \<Rightarrow> (case mapE f xs of Inl e \<Rightarrow> Inl e | Inr ys \<Rightarrow> Inr (y # ys)))"

subsection \<open>\<open>str.upper\<close>, \<open>str.lower\<close>, \<open>str.strip\<close>\<close>

definition upper_char :: "char \<Rightarrow> char" where
  "upper_char c =
     (case map_of (zip ''abcdefghijklmnopqrstuvwxyz'' ''ABCDEFGHIJKLMNOPQRSTUVWXYZ'') c of
        Some u \<Rightarrow> u
      | None \<Rightarrow> c)"

definition lower_char :: "char \<Rightarrow> char" where
  "lower_char c =
     (case map_of (zip ''ABCDEFGHIJKLMNOPQRSTUVWXYZ'' ''abcdefghijklmnopqrstuvwxyz'') c of
        Some l \<Rightarrow> l
      | None \<Rightarrow> c)"

definition upper :: "string \<Rightarrow> string" where
  "upper s = map upper_char s"

definition lower :: "string \<Rightarrow> string" where
  "lower s = map lower_char s"

definition is_space :: "char \<Rightarrow> bool" where
  "is_space c \<longleftrightarrow>
     c \<in> set [CHR '' '', CHR 0x09, CHR 0x0A, CHR 0x0B, CHR 0x0C, CHR 0x0D,
              CHR 0x1C, CHR 0x1D, CHR 0x1E, CHR 0x1F]"

definition strip :: "string \<Rightarrow> string" where
  "strip s = rev (dropWhile is_space (rev (dropWhile is_space s)))"

section \<open>Schemas (app/schemas/addresses.py)\<close>

text \<open>
  A pydantic model is a record; \<open>model_validate\<close> reads a dictionary field by field
  and fails with \<open>ValidationError\<close> where a declared type or constraint is not met;
  \<open>model_dump\<close> writes the fields back in declaration order. Keys a model does not
  declare are ignored, an absent optional field takes its default.
\<close>

definition ResidentialIndicatorType :: "string list" where
  "ResidentialIndicatorType = [''unknown'', ''yes'', ''no'']"

definition ValidationStatusType :: "string list" where
  "ValidationStatusType = [''verified'', ''unverified'', ''error'']"

definition MessageLevelType :: "string list" where
  "MessageLevelType = [''info'', ''warning'', ''error'']"

text \<open>Field readers: \<open>str | None = None\<close>, a constrained required \<open>str\<close>,
  \<open>str | int | None = None\<close>, and \<open>ResidentialIndicatorType | None = None\<close>.\<close>

definition opt_str :: "jdict \<Rightarrow> string \<Rightarrow> error + string option" where
  "opt_str d k =
     (case map_of d k of
        None \<Rightarrow> Inr None
      | Some JNone \<Rightarrow> Inr None
      | Some (JStr s) \<Rightarrow> Inr (Some s)
      | Some _ \<Rightarrow> Inl ValidationError)"

definition req_str :: "jdict \<Rightarrow> string \<Rightarrow> nat \<Rightarrow> nat option \<Rightarrow> error + string" where
  "req_str d k min_length max_length =
     (case map_of d k of
        Some (JStr s) \<Rightarrow>
          (if length s < min_length then Inl ValidationError
           else (case max_length of
                   None \<Rightarrow> Inr s
                 | Some m \<Rightarrow> if m < length s then Inl ValidationError else Inr s))
      | _ \<Rightarrow> Inl ValidationError)"

definition opt_str_or_int :: "jdict \<Rightarrow> string \<Rightarrow> error + jval" where
  "opt_str_or_int d k =
     (case map_of d k of
        None \<Rightarrow> Inr JNone
      | Some JNone \<Rightarrow> Inr JNone
      | Some (JStr s) \<Rightarrow> Inr (JStr s)
      | Some (JInt i) \<Rightarrow> Inr (JInt i)
      | Some _ \<Rightarrow> Inl ValidationError)"

definition opt_indicator :: "jdict \<Rightarrow> string \<Rightarrow> error + string option" where
  "opt_indicator d k =
     (case map_of d k of
        None \<Rightarrow> Inr None
      | Some JNone \<Rightarrow> Inr None
      | Some (JStr s) \<Rightarrow>
          (if s \<in> set ResidentialIndicatorType then Inr (Some s) else Inl ValidationError)
      | Some _ \<Rightarrow> Inl ValidationError)"

definition jopt :: "string option \<Rightarrow> jval" where
  "jopt v = (case v of None \<Rightarrow> JNone | Some s \<Rightarrow> JStr s)"

subsection \<open>AddressInputSchema and AddressOutputSchema\<close>

record AddressInputSchema =
  name :: "string option"
  phone :: "string option"
  email :: "string option"
  company_name :: "string option"
  address_line1 :: string
  address_line2 :: "string option"
  address_line3 :: "string option"
  city_locality :: string
  state_province :: string
  postal_code :: jval
  country_code :: string
  address_residential_indicator :: string

text \<open>\<open>AddressOutputSchema\<close> subclasses \<open>AddressInputSchema\<close> and adds nothing.\<close>

type_synonym AddressOutputSchema = AddressInputSchema

text \<open>The \<open>mode="before"\<close> field validator of \<open>address_residential_indicator\<close>.\<close>

definition validate_residential_indicator :: "jval \<Rightarrow> string" where
  "validate_residential_indicator v =
     (case v of
        JNone \<Rightarrow> ''unknown''
      | JStr s \<Rightarrow>
          (let normalized = lower (strip s)
           in if normalized \<in> set ResidentialIndicatorType then normalized else ''unknown'')
      | _ \<Rightarrow> ''unknown'')"

definition AddressInputSchema_model_validate :: "jdict \<Rightarrow> error + AddressInputSchema" where
  "AddressInputSchema_model_validate d =
     bindE (opt_str d ''name'') (\<lambda>v_name.
     bindE (opt_str d ''phone'') (\<lambda>v_phone.
     bindE (opt_str d ''email'') (\<lambda>v_email.
     bindE (opt_str d ''company_name'') (\<lambda>v_company.
     bindE (req_str d ''address_line1'' 1 None) (\<lambda>v_line1.
     bindE (opt_str d ''address_line2'') (\<lambda>v_line2.
     bindE (opt_str d ''address_line3'') (\<lambda>v_line3.
     bindE (req_str d ''city_locality'' 1 None) (\<lambda>v_city.
     bindE (req_str d ''state_province'' 1 None) (\<lambda>v_state.
     bindE (opt_str_or_int d ''postal_code'') (\<lambda>v_postal.
     bindE (req_str d ''country_code'' 2 (Some 2)) (\<lambda>v_country.
       Inr \<lparr> name = v_name, phone = v_phone, email = v_email, company_name = v_company,
             address_line1 = v_line1, address_line2 = v_line2, address_line3 = v_line3,
             city_locality = v_city, state_province = v_state, postal_code = v_postal,
             country_code = v_country,
             address_residential_indicator =
               (case map_of d ''address_residential_indicator'' of
                  None \<Rightarrow> ''unknown''
                | Some v \<Rightarrow> validate_residential_indicator v) \<rparr>)))))))))))"

definition AddressOutputSchema_model_validate :: "jdict \<Rightarrow> error + AddressOutputSchema" where
  "AddressOutputSchema_model_validate d = AddressInputSchema_model_validate d"

definition AddressInputSchema_model_dump :: "AddressInputSchema \<Rightarrow> jdict" where
  "AddressInputSchema_model_dump a =
     [(''name'', jopt (name a)),
      (''phone'', jopt (phone a)),
      (''email'', jopt (email a)),
      (''company_name'', jopt (company_name a)),
      (''address_line1'', JStr (address_line1 a)),
      (''address_line2'', jopt (address_line2 a)),
      (''address_line3'', jopt (address_line3 a)),
      (''city_locality'', JStr (city_locality a)),
      (''state_province'', JStr (state_province a)),
      (''postal_code'', postal_code a),
      (''country_code'', JStr (country_code a)),
      (''address_residential_indicator'', JStr (address_residential_indicator a))]"

subsection \<open>ValidationMessageSchema and ValidationResultSchema\<close>

record ValidationMessageSchema =
  code :: string
  message :: string
  level :: string

definition ValidationMessageSchema_model_dump :: "ValidationMessageSchema \<Rightarrow> jdict" where
  "ValidationMessageSchema_model_dump m =
     [(''code'', JStr (code m)), (''message'', JStr (message m)), (''level'', JStr (level m))]"

definition ValidationMessageSchema_model_validate ::
  "jdict \<Rightarrow> error + ValidationMessageSchema" where
  "ValidationMessageSchema_model_validate d =
     bindE (req_str d ''code'' 0 None) (\<lambda>v_code.
     bindE (req_str d ''message'' 0 None) (\<lambda>v_message.
       (case map_of d ''level'' of
          None \<Rightarrow> Inr \<lparr> code = v_code, message = v_message, level = ''info'' \<rparr>
        | Some (JStr l) \<Rightarrow>
            (if l \<in> set MessageLevelType
             then Inr \<lparr> code = v_code, message = v_message, level = l \<rparr>
             else Inl ValidationError)
        | Some _ \<Rightarrow> Inl ValidationError)))"

record ValidationResultSchema =
  status :: string
  original_address :: AddressOutputSchema
  matched_address :: AddressOutputSchema
  messages :: "ValidationMessageSchema list"

text \<open>The constructor call \<open>ValidationResultSchema(status=..., ...)\<close>: pydantic checks
  the status literal; the other fields arrive validated.\<close>

definition ValidationResultSchema_new ::
  "string \<Rightarrow> AddressOutputSchema \<Rightarrow> AddressOutputSchema \<Rightarrow> ValidationMessageSchema list
     \<Rightarrow> error + ValidationResultSchema" where
  "ValidationResultSchema_new st orig matched msgs =
     (if st \<in> set ValidationStatusType
      then Inr \<lparr> status = st, original_address = orig, matched_address = matched,
                 messages = msgs \<rparr>
      else Inl ValidationError)"

section \<open>The validation Transform (ValidationService)\<close>

text \<open>One round of the loop of \<open>_normalize_address_data\<close>.\<close>

definition normalize_field :: "string \<times> jval \<Rightarrow> jdict \<Rightarrow> jdict" where
  "normalize_field kv normalized_data =
     (case kv of (field_name, field_value) \<Rightarrow>
        (case field_value of
           JStr s \<Rightarrow>
             (let cleaned_value = strip s
              in if field_name = ''address_residential_indicator'' then
                   (let lowered = lower cleaned_value;
                        cleaned = (if lowered \<notin> set [''unknown'', ''yes'', ''no'']
                                   then ''unknown'' else lowered)
                    in AList.update field_name (JStr cleaned) normalized_data)
                 else if field_name = ''country_code'' then
                   AList.update field_name (JStr (upper cleaned_value)) normalized_data
                 else if field_name = ''email'' then
                   AList.update field_name (JStr (lower cleaned_value)) normalized_data
                 else AList.update field_name (JStr (upper cleaned_value)) normalized_data)
         | _ \<Rightarrow> AList.update field_name field_value normalized_data))"

definition normalize_address_data :: "jdict \<Rightarrow> jdict" where
  "normalize_address_data address_data =
     (let normalized_data = fold normalize_field address_data []
      in if map_of normalized_data ''address_residential_indicator'' = None
         then AList.update ''address_residential_indicator'' (JStr ''unknown'') normalized_data
         else normalized_data)"

text \<open>\<open>not address.postal_code\<close>: \<open>None\<close>, the empty string and \<open>0\<close> are falsy.\<close>

definition falsy :: "jval \<Rightarrow> bool" where
  "falsy v = (case v of JNone \<Rightarrow> True | JStr s \<Rightarrow> s = [] | JInt i \<Rightarrow> i = 0 | JDict d \<Rightarrow> d = [])"

definition determine_validation_status ::
  "AddressInputSchema \<Rightarrow> string \<times> ValidationMessageSchema list" where
  "determine_validation_status address =
     (let validation_messages =
            (if upper (country_code address) = ''US'' \<and> falsy (postal_code address)
             then [\<lparr> code = ''missing_postal_code'',
                     message = ''postal_code is recommended for US'',
                     level = ''warning'' \<rparr>]
             else [])
      in (''verified'', validation_messages))"

section \<open>The store (app/models)\<close>

text \<open>
  The four tables, each a list of rows in insertion order. \<open>uuid4_next\<close> stands for
  \<open>uuid.uuid4\<close>, the default of every primary key: each draw returns an identifier not
  drawn before. \<open>now\<close> is what the server default \<open>func.now()\<close> of the
  \<open>created_at\<close> columns evaluates to. \<open>request_payload\<close> is a nullable JSONB
  column holding a list of dictionaries.
\<close>

record ValidationBatch =
  vb_id :: uuid
  vb_status :: string
  vb_created_at :: nat
  vb_request_payload :: "jdict list option"

record ValidationItem =
  vi_id :: uuid
  vi_batch_id :: uuid
  vi_status :: string
  vi_original_address :: jdict
  vi_matched_address :: jdict
  vi_messages :: "jdict list"
  vi_created_at :: nat

record RecognitionBatch =
  rb_id :: uuid
  rb_status :: string
  rb_created_at :: nat
  rb_request_payload :: "jdict list option"

record RecognitionItem =
  ri_id :: uuid
  ri_batch_id :: uuid
  ri_status :: string
  ri_recognized :: jdict
  ri_created_at :: nat

record database =
  address_validation_batches :: "ValidationBatch list"
  address_validation_items :: "ValidationItem list"
  address_recognition_batches :: "RecognitionBatch list"
  address_recognition_items :: "RecognitionItem list"
  uuid4_next :: uuid
  now :: nat

text \<open>
  Every service call returns what it returns or raises, paired with the store as it is
  committed when the call ends: a transaction left by an exception is rolled back.
\<close>

type_synonym 'a outcome = "(error + 'a) \<times> database"

subsection \<open>Statements on the validation tables\<close>

definition select_validation_batch :: "database \<Rightarrow> uuid \<Rightarrow> ValidationBatch option" where
  "select_validation_batch db batch_id =
     find (\<lambda>b. vb_id b = batch_id) (address_validation_batches db)"

definition insert_validation_batch ::
  "database \<Rightarrow> string \<Rightarrow> jdict list option \<Rightarrow> uuid \<times> database" where
  "insert_validation_batch db st payload =
     (uuid4_next db,
      db \<lparr> address_validation_batches :=
             address_validation_batches db @
               [\<lparr> vb_id = uuid4_next db, vb_status = st, vb_created_at = now db,
                  vb_request_payload = payload \<rparr>],
           uuid4_next := Suc (uuid4_next db) \<rparr>)"

definition update_validation_status :: "database \<Rightarrow> uuid \<Rightarrow> string \<Rightarrow> database" where
  "update_validation_status db batch_id st =
     db \<lparr> address_validation_batches :=
            map (\<lambda>b. if vb_id b = batch_id then b \<lparr> vb_status := st \<rparr> else b)
              (address_validation_batches db) \<rparr>"

definition select_validation_items :: "database \<Rightarrow> uuid \<Rightarrow> ValidationItem list" where
  "select_validation_items db batch_id =
     filter (\<lambda>i. vi_batch_id i = batch_id) (address_validation_items db)"

definition delete_validation_items :: "database \<Rightarrow> uuid \<Rightarrow> database" where
  "delete_validation_items db batch_id =
     db \<lparr> address_validation_items :=
            filter (\<lambda>i. vi_batch_id i \<noteq> batch_id) (address_validation_items db) \<rparr>"

definition delete_validation_batch :: "database \<Rightarrow> uuid \<Rightarrow> database" where
  "delete_validation_batch db batch_id =
     db \<lparr> address_validation_batches :=
            filter (\<lambda>b. vb_id b \<noteq> batch_id) (address_validation_batches db) \<rparr>"

definition add_validation_item ::
  "database \<Rightarrow> uuid \<Rightarrow> string \<Rightarrow> jdict \<Rightarrow> jdict \<Rightarrow> jdict list \<Rightarrow> database" where
  "add_validation_item db batch_id st original matched msgs =
     db \<lparr> address_validation_items :=
            address_validation_items db @
              [\<lparr> vi_id = uuid4_next db, vi_batch_id = batch_id, vi_status = st,
                 vi_original_address = original, vi_matched_address = matched,
                 vi_messages = msgs, vi_created_at = now db \<rparr>],
          uuid4_next := Suc (uuid4_next db) \<rparr>"

section \<open>ValidationService (app/services/address_validation.py)\<close>

definition create_queued_batch :: "database \<Rightarrow> AddressInputSchema list \<Rightarrow> uuid outcome" where
  "create_queued_batch db addresses =
     (let request_payload = map AddressInputSchema_model_dump addresses;
          (new_batch_id, db1) = insert_validation_batch db ''queued'' (Some request_payload)
      in (Inr new_batch_id, db1))"

text \<open>The copy of the submitted record that the synchronous path returns as
  \<open>original_address\<close>.\<close>

definition original_output_of :: "jdict \<Rightarrow> jdict" where
  "original_output_of original_data =
     (case map_of original_data ''address_residential_indicator'' of
        Some (JStr s) \<Rightarrow>
          (let normalized_indicator = lower (strip s)
           in AList.update ''address_residential_indicator''
                (JStr (if normalized_indicator \<in> set [''unknown'', ''yes'', ''no'']
                       then normalized_indicator else ''unknown''))
                original_data)
      | Some JNone \<Rightarrow>
          AList.update ''address_residential_indicator'' (JStr ''unknown'') original_data
      | None \<Rightarrow>
          AList.update ''address_residential_indicator'' (JStr ''unknown'') original_data
      | Some _ \<Rightarrow> original_data)"

text \<open>The loop of \<open>validate_and_store_addresses\<close>: the store with the items added so
  far and the results so far; a \<open>ValidationError\<close> of an output model leaves it.\<close>

fun validate_loop ::
  "uuid \<Rightarrow> AddressInputSchema list \<Rightarrow> database \<Rightarrow> ValidationResultSchema list
     \<Rightarrow> error + (database \<times> ValidationResultSchema list)" where
  "validate_loop batch_id [] db validation_results = Inr (db, validation_results)"
| "validate_loop batch_id (address_input # rest) db validation_results =
     (let original_data = AddressInputSchema_model_dump address_input;
          normalized_data = normalize_address_data original_data;
          (validation_status, validation_messages) = determine_validation_status address_input;
          messages_data = map ValidationMessageSchema_model_dump validation_messages;
          db1 = add_validation_item db batch_id validation_status original_data
                  normalized_data messages_data;
          original_output = original_output_of original_data
      in bindE (AddressOutputSchema_model_validate original_output) (\<lambda>orig.
         bindE (AddressOutputSchema_model_validate normalized_data) (\<lambda>matched.
         bindE (ValidationResultSchema_new validation_status orig matched validation_messages)
           (\<lambda>r. validate_loop batch_id rest db1 (validation_results @ [r])))))"

definition validate_and_store_addresses ::
  "database \<Rightarrow> AddressInputSchema list \<Rightarrow> (uuid \<times> ValidationResultSchema list) outcome" where
  "validate_and_store_addresses db addresses =
     (let request_payload = map AddressInputSchema_model_dump addresses;
          (new_batch_id, db1) = insert_validation_batch db ''completed'' (Some request_payload)
      in case validate_loop new_batch_id addresses db1 [] of
           Inl e \<Rightarrow> (Inl e, db)
         | Inr (db2, validation_results) \<Rightarrow> (Inr (new_batch_id, validation_results), db2))"

text \<open>The body of the loop of \<open>process_batch_validation\<close>.\<close>

definition store_validation_item :: "uuid \<Rightarrow> AddressInputSchema \<Rightarrow> database \<Rightarrow> database" where
  "store_validation_item batch_id address_input db =
     (let original_data = AddressInputSchema_model_dump address_input;
          normalized_data = normalize_address_data original_data;
          (validation_status, validation_messages) = determine_validation_status address_input
      in add_validation_item db batch_id validation_status original_data normalized_data
           (map ValidationMessageSchema_model_dump validation_messages))"

definition process_batch_validation :: "database \<Rightarrow> uuid \<Rightarrow> unit outcome" where
  "process_batch_validation db batch_id =
     (case select_validation_batch db batch_id of
        None \<Rightarrow> (Inr (), db)
      | Some batch_record \<Rightarrow>
          (let existing_item = map_option vi_id (find (\<lambda>i. vi_batch_id i = batch_id)
                                                  (address_validation_items db))
           in if vb_status batch_record = ''completed'' \<and> existing_item \<noteq> None
              then (Inr (), db)
              else
                (let request_payload =
                       (case vb_request_payload batch_record of None \<Rightarrow> [] | Some p \<Rightarrow> p)
                 in if request_payload = []
                    then (Inr (), update_validation_status db batch_id ''failed'')
                    else
                      (let db1 = update_validation_status db batch_id ''processing'';
                           db2 = delete_validation_items db1 batch_id
                       in case mapE AddressInputSchema_model_validate request_payload of
                            Inl e \<Rightarrow> (Inl e, db)
                          | Inr address_list \<Rightarrow>
                              (let db3 = fold (store_validation_item batch_id) address_list db2
                               in (Inr (), update_validation_status db3 batch_id
                                             ''completed''))))))"

text \<open>The query of \<open>retrieve_batch_results\<close>: the items of the batch,
  \<open>ORDER BY created_at\<close>.\<close>

definition validation_result_rows :: "database \<Rightarrow> uuid \<Rightarrow> ValidationItem list" where
  "validation_result_rows db batch_id =
     sort_key vi_created_at (select_validation_items db batch_id)"

definition validation_result_of :: "ValidationItem \<Rightarrow> error + ValidationResultSchema" where
  "validation_result_of item =
     bindE (mapE ValidationMessageSchema_model_validate (vi_messages item)) (\<lambda>msgs.
     bindE (AddressOutputSchema_model_validate (vi_original_address item)) (\<lambda>orig.
     bindE (AddressOutputSchema_model_validate (vi_matched_address item)) (\<lambda>matched.
       ValidationResultSchema_new (vi_status item) orig matched msgs)))"

definition retrieve_batch_results ::
  "database \<Rightarrow> uuid \<Rightarrow> ValidationResultSchema list outcome" where
  "retrieve_batch_results db batch_id =
     (mapE validation_result_of (validation_result_rows db batch_id), db)"

subsection \<open>Batch listings\<close>

definition BatchStatusType :: "string list" where
  "BatchStatusType = [''queued'', ''processing'', ''completed'', ''failed'']"

record BatchInfoSchema =
  bi_id :: uuid
  bi_status :: string
  bi_created_at :: nat
  bi_items_count :: int
  bi_request_payload :: "jdict list option"

definition BatchInfoSchema_new ::
  "uuid \<Rightarrow> string \<Rightarrow> nat \<Rightarrow> int \<Rightarrow> jdict list option \<Rightarrow> error + BatchInfoSchema" where
  "BatchInfoSchema_new i st created n payload =
     (if st \<in> set BatchStatusType
      then Inr \<lparr> bi_id = i, bi_status = st, bi_created_at = created, bi_items_count = n,
                 bi_request_payload = payload \<rparr>
      else Inl ValidationError)"

text \<open>A row of the outer join grouped by batch: the batch and the count of its items.\<close>

definition batch_with_count :: "database \<Rightarrow> ValidationBatch \<Rightarrow> ValidationBatch \<times> int" where
  "batch_with_count db b = (b, int (length (select_validation_items db (vb_id b))))"

definition batch_info_of :: "ValidationBatch \<times> int \<Rightarrow> error + BatchInfoSchema" where
  "batch_info_of row =
     (case row of (batch_record, item_count) \<Rightarrow>
        BatchInfoSchema_new (vb_id batch_record) (vb_status batch_record)
          (vb_created_at batch_record) item_count (vb_request_payload batch_record))"

definition list_validation_batches ::
  "database \<Rightarrow> nat \<Rightarrow> nat \<Rightarrow> string option \<Rightarrow> BatchInfoSchema list outcome" where
  "list_validation_batches db limit offset status_filter =
     (let selected =
            (case status_filter of
               None \<Rightarrow> address_validation_batches db
             | Some s \<Rightarrow>
                 if s = [] then address_validation_batches db
                 else filter (\<lambda>b. vb_status b = s) (address_validation_batches db));
          ordered = rev (sort_key vb_created_at selected);
          result_rows = map (batch_with_count db) (take limit (drop offset ordered))
      in (mapE batch_info_of result_rows, db))"

definition get_batch_info :: "database \<Rightarrow> uuid \<Rightarrow> BatchInfoSchema option outcome" where
  "get_batch_info db batch_id =
     (case select_validation_batch db batch_id of
        None \<Rightarrow> (Inr None, db)
      | Some b \<Rightarrow>
          (case batch_info_of (batch_with_count db b) of
             Inl e \<Rightarrow> (Inl e, db)
           | Inr info \<Rightarrow> (Inr (Some info), db)))"

subsection \<open>Deleting and requeueing\<close>

definition remove_batch :: "database \<Rightarrow> uuid \<Rightarrow> bool outcome" where
  "remove_batch db batch_id =
     (case select_validation_batch db batch_id of
        None \<Rightarrow> (Inr False, db)
      | Some batch_record \<Rightarrow>
          (Inr True, delete_validation_batch (delete_validation_items db batch_id) batch_id))"

definition reset_batch_for_processing :: "database \<Rightarrow> uuid \<Rightarrow> bool outcome" where
  "reset_batch_for_processing db batch_id =
     (case select_validation_batch db batch_id of
        None \<Rightarrow> (Inr False, db)
      | Some batch_record \<Rightarrow>
          if vb_status batch_record = ''processing'' then (Inl (RuntimeError ''processing''), db)
          else if vb_request_payload batch_record = None
                  \<or> vb_request_payload batch_record = Some []
          then (Inr False, update_validation_status db batch_id ''failed'')
          else (Inr True,
                delete_validation_items (update_validation_status db batch_id ''queued'')
                  batch_id))"

section \<open>Endpoints of the validation batches (app/api/v1/endpoints/addresses.py)\<close>

text \<open>The application state an endpoint works on: the store and the job queue
  (\<open>request.app.state.redis\<close>), a list of job name and batch identifier.\<close>

record app_state =
  app_db :: database
  redis_jobs :: "(string \<times> uuid) list"

definition enqueue_job :: "app_state \<Rightarrow> string \<Rightarrow> uuid \<Rightarrow> app_state" where
  "enqueue_job app job batch_id = app \<lparr> redis_jobs := redis_jobs app @ [(job, batch_id)] \<rparr>"



definition delete_validation_batch_endpoint ::
  "app_state \<Rightarrow> uuid \<Rightarrow> (error + unit) \<times> app_state" where
  "delete_validation_batch_endpoint app batch_id =
     (case remove_batch (app_db app) batch_id of
        (Inl e, db) \<Rightarrow> (Inl e, app \<lparr> app_db := db \<rparr>)
      | (Inr success, db) \<Rightarrow>
          if \<not> success
          then (Inl (HTTPException 404 ''batch_id not found''), app \<lparr> app_db := db \<rparr>)
          else (Inr (), app \<lparr> app_db := db \<rparr>))"

definition requeue_validation_batch_endpoint ::
  "app_state \<Rightarrow> uuid \<Rightarrow> (error + unit) \<times> app_state" where
  "requeue_validation_batch_endpoint app batch_id =
     (case reset_batch_for_processing (app_db app) batch_id of
        (Inl (RuntimeError m), db) \<Rightarrow>
          (Inl (HTTPException 409 ''batch is processing''), app \<lparr> app_db := db \<rparr>)
      | (Inl e, db) \<Rightarrow> (Inl e, app \<lparr> app_db := db \<rparr>)
      | (Inr success, db) \<Rightarrow>
          if \<not> success
          then (Inl (HTTPException 404 ''batch_id not found''), app \<lparr> app_db := db \<rparr>)
          else (Inr (),
                enqueue_job (app \<lparr> app_db := db \<rparr>) ''validate_addresses_batch'' batch_id))"

section \<open>Recognition schemas\<close>

record RecognitionInputAddressSchema =
  r_name :: "string option"
  r_address_line1 :: "string option"
  r_address_line2 :: "string option"
  r_address_line3 :: "string option"
  r_city_locality :: "string option"
  r_state_province :: "string option"
  r_postal_code :: jval
  r_country_code :: "string option"
  r_address_residential_indicator :: "string option"

definition RecognitionInputAddressSchema_model_validate ::
  "jdict \<Rightarrow> error + RecognitionInputAddressSchema" where
  "RecognitionInputAddressSchema_model_validate d =
     bindE (opt_str d ''name'') (\<lambda>v_name.
     bindE (opt_str d ''address_line1'') (\<lambda>v_line1.
     bindE (opt_str d ''address_line2'') (\<lambda>v_line2.
     bindE (opt_str d ''address_line3'') (\<lambda>v_line3.
     bindE (opt_str d ''city_locality'') (\<lambda>v_city.
     bindE (opt_str d ''state_province'') (\<lambda>v_state.
     bindE (opt_str_or_int d ''postal_code'') (\<lambda>v_postal.
     bindE (opt_str d ''country_code'') (\<lambda>v_country.
     bindE (opt_indicator d ''address_residential_indicator'') (\<lambda>v_indicator.
       Inr \<lparr> r_name = v_name, r_address_line1 = v_line1, r_address_line2 = v_line2,
             r_address_line3 = v_line3, r_city_locality = v_city, r_state_province = v_state,
             r_postal_code = v_postal, r_country_code = v_country,
             r_address_residential_indicator = v_indicator \<rparr>)))))))))"

definition RecognitionInputAddressSchema_model_dump ::
  "RecognitionInputAddressSchema \<Rightarrow> jdict" where
  "RecognitionInputAddressSchema_model_dump a =
     [(''name'', jopt (r_name a)),
      (''address_line1'', jopt (r_address_line1 a)),
      (''address_line2'', jopt (r_address_line2 a)),
      (''address_line3'', jopt (r_address_line3 a)),
      (''city_locality'', jopt (r_city_locality a)),
      (''state_province'', jopt (r_state_province a)),
      (''postal_code'', r_postal_code a),
      (''country_code'', jopt (r_country_code a)),
      (''address_residential_indicator'', jopt (r_address_residential_indicator a))]"

record RecognitionRequestSchema =
  text_of :: string
  address :: "RecognitionInputAddressSchema option"

definition RecognitionRequestSchema_model_dump :: "RecognitionRequestSchema \<Rightarrow> jdict" where
  "RecognitionRequestSchema_model_dump req =
     [(''text'', JStr (text_of req)),
      (''address'', (case address req of
                       None \<Rightarrow> JNone
                     | Some a \<Rightarrow> JDict (RecognitionInputAddressSchema_model_dump a)))]"

definition RecognitionRequestSchema_model_validate ::
  "jdict \<Rightarrow> error + RecognitionRequestSchema" where
  "RecognitionRequestSchema_model_validate d =
     bindE (req_str d ''text'' 1 None) (\<lambda>v_text.
       (case map_of d ''address'' of
          None \<Rightarrow> Inr \<lparr> text_of = v_text, address = None \<rparr>
        | Some JNone \<Rightarrow> Inr \<lparr> text_of = v_text, address = None \<rparr>
        | Some (JDict a) \<Rightarrow>
            bindE (RecognitionInputAddressSchema_model_validate a) (\<lambda>v_address.
              Inr \<lparr> text_of = v_text, address = Some v_address \<rparr>)
        | Some _ \<Rightarrow> Inl ValidationError))"

record PartialAddressSchema =
  p_name :: "string option"
  p_phone :: "string option"
  p_email :: "string option"
  p_company_name :: "string option"
  p_address_line1 :: "string option"
  p_address_line2 :: "string option"
  p_address_line3 :: "string option"
  p_city_locality :: "string option"
  p_state_province :: "string option"
  p_postal_code :: jval
  p_country_code :: "string option"
  p_address_residential_indicator :: "string option"

definition PartialAddressSchema_model_validate :: "jdict \<Rightarrow> error + PartialAddressSchema" where
  "PartialAddressSchema_model_validate d =
     bindE (opt_str d ''name'') (\<lambda>v_name.
     bindE (opt_str d ''phone'') (\<lambda>v_phone.
     bindE (opt_str d ''email'') (\<lambda>v_email.
     bindE (opt_str d ''company_name'') (\<lambda>v_company.
     bindE (opt_str d ''address_line1'') (\<lambda>v_line1.
     bindE (opt_str d ''address_line2'') (\<lambda>v_line2.
     bindE (opt_str d ''address_line3'') (\<lambda>v_line3.
     bindE (opt_str d ''city_locality'') (\<lambda>v_city.
     bindE (opt_str d ''state_province'') (\<lambda>v_state.
     bindE (opt_str_or_int d ''postal_code'') (\<lambda>v_postal.
     bindE (opt_str d ''country_code'') (\<lambda>v_country.
     bindE (opt_indicator d ''address_residential_indicator'') (\<lambda>v_indicator.
       Inr \<lparr> p_name = v_name, p_phone = v_phone, p_email = v_email,
             p_company_name = v_company, p_address_line1 = v_line1,
             p_address_line2 = v_line2, p_address_line3 = v_line3,
             p_city_locality = v_city, p_state_province = v_state,
             p_postal_code = v_postal, p_country_code = v_country,
             p_address_residential_indicator = v_indicator \<rparr>))))))))))))"

record RecognitionResultSchema =
  rr_status :: string
  rr_original_address :: PartialAddressSchema
  rr_recognized_address :: PartialAddressSchema

text \<open>\<open>RecognitionResultSchema(original_address=..., recognized_address=...)\<close>; the
  status takes its default.\<close>

definition RecognitionResultSchema_new ::
  "PartialAddressSchema \<Rightarrow> PartialAddressSchema \<Rightarrow> RecognitionResultSchema" where
  "RecognitionResultSchema_new orig recognized =
     \<lparr> rr_status = ''recognized'', rr_original_address = orig,
       rr_recognized_address = recognized \<rparr>"

section \<open>RecognitionService (app/services/address_recognition.py)\<close>

definition recognize_field :: "string \<times> jval \<Rightarrow> jdict \<Rightarrow> jdict" where
  "recognize_field kv processed_data =
     (case kv of (field_key, field_value) \<Rightarrow>
        (case field_value of
           JStr s \<Rightarrow>
             (let cleaned_value = strip s
              in if field_key = ''country_code'' then
                   AList.update field_key (JStr (upper cleaned_value)) processed_data
                 else if field_key = ''email'' then
                   AList.update field_key (JStr (lower cleaned_value)) processed_data
                 else if field_key = ''address_residential_indicator'' then
                   (let normalized_indicator = lower (strip cleaned_value)
                    in AList.update field_key
                         (JStr (if normalized_indicator \<in> set [''unknown'', ''yes'', ''no'']
                                then normalized_indicator else ''unknown''))
                         processed_data)
                 else AList.update field_key (JStr (upper cleaned_value)) processed_data)
         | _ \<Rightarrow> AList.update field_key field_value processed_data))"

definition process_address_recognition :: "jdict \<Rightarrow> jdict" where
  "process_address_recognition address_data =
     (let processed_data = fold recognize_field address_data []
      in if map_of processed_data ''address_residential_indicator'' = None
            \<or> map_of processed_data ''address_residential_indicator'' = Some JNone
         then AList.update ''address_residential_indicator'' (JStr ''unknown'') processed_data
         else processed_data)"

subsection \<open>Statements on the recognition tables\<close>

definition get_recognition_batch :: "database \<Rightarrow> uuid \<Rightarrow> RecognitionBatch option" where
  "get_recognition_batch db batch_id =
     find (\<lambda>b. rb_id b = batch_id) (address_recognition_batches db)"

definition insert_recognition_batch ::
  "database \<Rightarrow> string \<Rightarrow> jdict list option \<Rightarrow> uuid \<times> database" where
  "insert_recognition_batch db st payload =
     (uuid4_next db,
      db \<lparr> address_recognition_batches :=
             address_recognition_batches db @
               [\<lparr> rb_id = uuid4_next db, rb_status = st, rb_created_at = now db,
                  rb_request_payload = payload \<rparr>],
           uuid4_next := Suc (uuid4_next db) \<rparr>)"

definition update_recognition_status :: "database \<Rightarrow> uuid \<Rightarrow> string \<Rightarrow> database" where
  "update_recognition_status db batch_id st =
     db \<lparr> address_recognition_batches :=
            map (\<lambda>b. if rb_id b = batch_id then b \<lparr> rb_status := st \<rparr> else b)
              (address_recognition_batches db) \<rparr>"

definition select_recognition_items :: "database \<Rightarrow> uuid \<Rightarrow> RecognitionItem list" where
  "select_recognition_items db batch_id =
     filter (\<lambda>i. ri_batch_id i = batch_id) (address_recognition_items db)"

definition delete_recognition_items :: "database \<Rightarrow> uuid \<Rightarrow> database" where
  "delete_recognition_items db batch_id =
     db \<lparr> address_recognition_items :=
            filter (\<lambda>i. ri_batch_id i \<noteq> batch_id) (address_recognition_items db) \<rparr>"

definition add_recognition_item :: "database \<Rightarrow> uuid \<Rightarrow> string \<Rightarrow> jdict \<Rightarrow> database" where
  "add_recognition_item db batch_id st recognized =
     db \<lparr> address_recognition_items :=
            address_recognition_items db @
              [\<lparr> ri_id = uuid4_next db, ri_batch_id = batch_id, ri_status = st,
                 ri_recognized = recognized, ri_created_at = now db \<rparr>],
          uuid4_next := Suc (uuid4_next db) \<rparr>"

subsection \<open>Creating and processing recognition batches\<close>

definition create_queued_recognition_batch ::
  "database \<Rightarrow> RecognitionRequestSchema list \<Rightarrow> uuid outcome" where
  "create_queued_recognition_batch db requests =
     (let request_payload = map RecognitionRequestSchema_model_dump requests;
          (new_batch_id, db1) = insert_recognition_batch db ''queued'' (Some request_payload)
      in (Inr new_batch_id, db1))"

text \<open>\<open>recognition_request.address.model_dump() if recognition_request.address else {}\<close>\<close>

definition original_data_of :: "RecognitionRequestSchema \<Rightarrow> jdict" where
  "original_data_of recognition_request =
     (case address recognition_request of
        None \<Rightarrow> []
      | Some a \<Rightarrow> RecognitionInputAddressSchema_model_dump a)"

definition recognized_of :: "jdict \<Rightarrow> jdict \<Rightarrow> jdict" where
  "recognized_of original_data recognized_data =
     [(''original_address'', JDict original_data),
      (''recognized_address'', JDict recognized_data)]"

fun recognize_loop ::
  "uuid \<Rightarrow> RecognitionRequestSchema list \<Rightarrow> database \<Rightarrow> RecognitionResultSchema list
     \<Rightarrow> error + (database \<times> RecognitionResultSchema list)" where
  "recognize_loop batch_id [] db recognition_results = Inr (db, recognition_results)"
| "recognize_loop batch_id (recognition_request # rest) db recognition_results =
     (let original_data = original_data_of recognition_request;
          recognized_data = process_address_recognition original_data;
          db1 = add_recognition_item db batch_id ''completed''
                  (recognized_of original_data recognized_data)
      in bindE (PartialAddressSchema_model_validate original_data) (\<lambda>orig.
         bindE (PartialAddressSchema_model_validate recognized_data) (\<lambda>recognized.
           recognize_loop batch_id rest db1
             (recognition_results @ [RecognitionResultSchema_new orig recognized]))))"

definition recognize_and_store_addresses ::
  "database \<Rightarrow> RecognitionRequestSchema list
     \<Rightarrow> (uuid \<times> RecognitionResultSchema list) outcome" where
  "recognize_and_store_addresses db requests =
     (let request_payload = map RecognitionRequestSchema_model_dump requests;
          (new_batch_id, db1) = insert_recognition_batch db ''completed'' (Some request_payload)
      in case recognize_loop new_batch_id requests db1 [] of
           Inl e \<Rightarrow> (Inl e, db)
         | Inr (db2, recognition_results) \<Rightarrow> (Inr (new_batch_id, recognition_results), db2))"

definition store_recognition_item ::
  "uuid \<Rightarrow> RecognitionRequestSchema \<Rightarrow> database \<Rightarrow> database" where
  "store_recognition_item batch_id recognition_request db =
     (let original_data = original_data_of recognition_request;
          recognized_data = process_address_recognition original_data
      in add_recognition_item db batch_id ''completed''
           (recognized_of original_data recognized_data))"

text \<open>
  \<open>process_recognition_batch\<close> reads the batch with a plain \<open>db_session.get\<close> and
  commits twice: the status \<open>processing\<close> (or \<open>failed\<close>) first, the items and the
  status \<open>completed\<close> at the end. An exception after the first commit leaves the first
  commit in the store.
\<close>

definition process_recognition_batch :: "database \<Rightarrow> uuid \<Rightarrow> unit outcome" where
  "process_recognition_batch db batch_id =
     (case get_recognition_batch db batch_id of
        None \<Rightarrow> (Inr (), db)
      | Some batch_record \<Rightarrow>
          if rb_status batch_record \<in> set [''processing'', ''completed'']
          then (Inr (), db)
          else
            (let request_payload =
                   (case rb_request_payload batch_record of None \<Rightarrow> [] | Some p \<Rightarrow> p)
             in if request_payload = []
                then (Inr (), update_recognition_status db batch_id ''failed'')
                else
                  (let db1 = update_recognition_status db batch_id ''processing'';
                       db2 = delete_recognition_items db1 batch_id
                   in case mapE RecognitionRequestSchema_model_validate request_payload of
                        Inl e \<Rightarrow> (Inl e, db1)
                      | Inr recognition_requests \<Rightarrow>
                          (let db3 = fold (store_recognition_item batch_id)
                                       recognition_requests db2
                           in (Inr (),
                               (case get_recognition_batch db3 batch_id of
                                  None \<Rightarrow> db3
                                | Some updated_batch \<Rightarrow>
                                    update_recognition_status db3 batch_id ''completed''))))))"

subsection \<open>Reading recognition results\<close>

definition recognition_result_rows :: "database \<Rightarrow> uuid \<Rightarrow> RecognitionItem list" where
  "recognition_result_rows db batch_id =
     sort_key ri_created_at (select_recognition_items db batch_id)"

text \<open>\<open>recognition_data.get(key) or {}\<close>, handed to \<open>model_validate\<close>, which takes a
  dictionary.\<close>

definition get_or_empty :: "jdict \<Rightarrow> string \<Rightarrow> error + jdict" where
  "get_or_empty recognition_data k =
     (case map_of recognition_data k of
        None \<Rightarrow> Inr []
      | Some v \<Rightarrow>
          if falsy v then Inr []
          else (case v of JDict d \<Rightarrow> Inr d | _ \<Rightarrow> Inl ValidationError))"

definition recognition_result_of :: "RecognitionItem \<Rightarrow> error + RecognitionResultSchema" where
  "recognition_result_of item =
     (let recognition_data = ri_recognized item
      in bindE (get_or_empty recognition_data ''original_address'') (\<lambda>od.
         bindE (PartialAddressSchema_model_validate od) (\<lambda>orig.
         bindE (get_or_empty recognition_data ''recognized_address'') (\<lambda>rd.
         bindE (PartialAddressSchema_model_validate rd) (\<lambda>recognized.
           Inr (RecognitionResultSchema_new orig recognized))))))"

definition retrieve_recognition_results ::
  "database \<Rightarrow> uuid \<Rightarrow> RecognitionResultSchema list outcome" where
  "retrieve_recognition_results db batch_id =
     (mapE recognition_result_of (recognition_result_rows db batch_id), db)"

definition get_recognition_results_endpoint ::
  "app_state \<Rightarrow> uuid \<Rightarrow> (error + RecognitionResultSchema list) \<times> app_state" where
  "get_recognition_results_endpoint app recognition_id =
     (let result_rows = recognition_result_rows (app_db app) recognition_id
      in if result_rows = []
         then (Inl (HTTPException 404 ''recognition_id not found or empty''), app)
         else (mapE recognition_result_of result_rows, app))"

section \<open>Worker entry points (app/workers/jobs.py)\<close>

text \<open>Each job opens a session of its own and calls the processing routine of its batch
  kind.\<close>

definition validate_addresses_batch :: "database \<Rightarrow> uuid \<Rightarrow> unit outcome" where
  "validate_addresses_batch db batch_uuid = process_batch_validation db batch_uuid"

definition recognize_addresses_batch :: "database \<Rightarrow> uuid \<Rightarrow> unit outcome" where
  "recognize_addresses_batch db batch_uuid = process_recognition_batch db batch_uuid"

section \<open>The operations as one interface\<close>

text \<open>The calls the services offer, and the store each leaves behind.\<close>

datatype request =
    CreateQueuedBatch "AddressInputSchema list"
  | ValidateAndStoreAddresses "AddressInputSchema list"
  | ProcessBatchValidation uuid
  | RetrieveBatchResults uuid
  | ListValidationBatches nat nat "string option"
  | GetBatchInfo uuid
  | RemoveBatch uuid
  | ResetBatchForProcessing uuid
  | CreateQueuedRecognitionBatch "RecognitionRequestSchema list"
  | RecognizeAndStoreAddresses "RecognitionRequestSchema list"
  | ProcessRecognitionBatch uuid
  | RetrieveRecognitionResults uuid

fun run :: "request \<Rightarrow> database \<Rightarrow> database" where
  "run (CreateQueuedBatch addresses) db = snd (create_queued_batch db addresses)"
| "run (ValidateAndStoreAddresses addresses) db = snd (validate_and_store_addresses db addresses)"
| "run (ProcessBatchValidation batch_id) db = snd (process_batch_validation db batch_id)"
| "run (RetrieveBatchResults batch_id) db = snd (retrieve_batch_results db batch_id)"
| "run (ListValidationBatches limit offset st) db =
     snd (list_validation_batches db limit offset st)"
| "run (GetBatchInfo batch_id) db = snd (get_batch_info db batch_id)"
| "run (RemoveBatch batch_id) db = snd (remove_batch db batch_id)"
| "run (ResetBatchForProcessing batch_id) db = snd (reset_batch_for_processing db batch_id)"
| "run (CreateQueuedRecognitionBatch requests) db =
     snd (create_queued_recognition_batch db requests)"
| "run (RecognizeAndStoreAddresses requests) db =
     snd (recognize_and_store_addresses db requests)"
| "run (ProcessRecognitionBatch batch_id) db = snd (process_recognition_batch db batch_id)"
| "run (RetrieveRecognitionResults batch_id) db =
     snd (retrieve_recognition_results db batch_id)"

subsection \<open>What a reader of the store sees of a batch\<close>

definition validation_status_of :: "database \<Rightarrow> uuid \<Rightarrow> string option" where
  "validation_status_of db batch_id = map_option vb_status (select_validation_batch db batch_id)"

definition validation_payload_of :: "database \<Rightarrow> uuid \<Rightarrow> jdict list" where
  "validation_payload_of db batch_id =
     (case select_validation_batch db batch_id of
        None \<Rightarrow> []
      | Some b \<Rightarrow> (case vb_request_payload b of None \<Rightarrow> [] | Some p \<Rightarrow> p))"

definition recognition_status_of :: "database \<Rightarrow> uuid \<Rightarrow> string option" where
  "recognition_status_of db batch_id = map_option rb_status (get_recognition_batch db batch_id)"

definition recognition_payload_of :: "database \<Rightarrow> uuid \<Rightarrow> jdict list" where
  "recognition_payload_of db batch_id =
     (case get_recognition_batch db batch_id of
        None \<Rightarrow> []
      | Some b \<Rightarrow> (case rb_request_payload b of None \<Rightarrow> [] | Some p \<Rightarrow> p))"

text \<open>The foreign key of \<open>address_validation_items.batch_id\<close>: every item belongs to a
  stored batch.\<close>

definition validation_items_owned :: "database \<Rightarrow> bool" where
  "validation_items_owned db \<longleftrightarrow>
     list_all (\<lambda>i. select_validation_batch db (vi_batch_id i) \<noteq> None)
       (address_validation_items db)"

section \<open>Two recognition workers on one store\<close>

text \<open>
  The recognition routine gives control back at each awaited store call. Between two
  such calls another worker may run. A worker is where it stands in
  \<open>process_recognition_batch\<close>, with what it holds in its session:
  \<^item> \<open>AtGet\<close>: before \<open>db_session.get\<close>;
  \<^item> \<open>AtFirstCommit st payload\<close>: the guards passed on the row it read, \<open>st\<close> set
    on the loaded object, before the first \<open>commit\<close>;
  \<^item> \<open>AtDelete payload\<close>: before the \<open>DELETE\<close> of the items;
  \<^item> \<open>AtLastCommit deleted requests\<close>: the rows its \<open>DELETE\<close> matched, the
    requests validated and their items added to the session, before the last
    \<open>commit\<close>;
  \<^item> \<open>Returned\<close>, \<open>Raised\<close>: left the routine.
  No statement of the routine takes a row lock, so every step is enabled whatever the
  other worker holds; each statement sees what is committed when it runs, and a
  session's own changes reach the store at its commit.
\<close>

datatype worker =
    AtGet
  | AtFirstCommit string "jdict list"
  | AtDelete "jdict list"
  | AtLastCommit "RecognitionItem list" "RecognitionRequestSchema list"
  | Returned
  | Raised error

fun recognition_step :: "uuid \<Rightarrow> worker \<times> database \<Rightarrow> worker \<times> database" where
  "recognition_step batch_id (AtGet, db) =
     (case get_recognition_batch db batch_id of
        None \<Rightarrow> (Returned, db)
      | Some batch_record \<Rightarrow>
          if rb_status batch_record \<in> set [''processing'', ''completed'']
          then (Returned, db)
          else
            (let request_payload =
                   (case rb_request_payload batch_record of None \<Rightarrow> [] | Some p \<Rightarrow> p)
             in if request_payload = []
                then (AtFirstCommit ''failed'' request_payload, db)
                else (AtFirstCommit ''processing'' request_payload, db)))"
| "recognition_step batch_id (AtFirstCommit st request_payload, db) =
     (if request_payload = []
      then (Returned, update_recognition_status db batch_id st)
      else (AtDelete request_payload, update_recognition_status db batch_id st))"
| "recognition_step batch_id (AtDelete request_payload, db) =
     (case mapE RecognitionRequestSchema_model_validate request_payload of
        Inl e \<Rightarrow> (Raised e, db)
      | Inr recognition_requests \<Rightarrow>
          (AtLastCommit (select_recognition_items db batch_id) recognition_requests, db))"
| "recognition_step batch_id (AtLastCommit deleted recognition_requests, db) =
     (let db2 = db \<lparr> address_recognition_items :=
                      filter (\<lambda>i. i \<notin> set deleted) (address_recognition_items db) \<rparr>;
          db3 = fold (store_recognition_item batch_id) recognition_requests db2
      in (Returned,
          (case get_recognition_batch db3 batch_id of
             None \<Rightarrow> db3
           | Some updated_batch \<Rightarrow> update_recognition_status db3 batch_id ''completed'')))"
| "recognition_step batch_id (Returned, db) = (Returned, db)"
| "recognition_step batch_id (Raised e, db) = (Raised e, db)"

text \<open>Two workers on the same batch; a schedule says which of them takes the next
  step (\<open>False\<close> the first, \<open>True\<close> the second).\<close>

fun interleave :: "uuid \<Rightarrow> bool list \<Rightarrow> worker \<times> worker \<times> database \<Rightarrow> worker \<times> worker \<times> database"
  where
  "interleave batch_id [] state = state"
| "interleave batch_id (second # schedule) (w1, w2, db) =
     (if second
      then (case recognition_step batch_id (w2, db) of
              (w2', db') \<Rightarrow> interleave batch_id schedule (w1, w2', db'))
      else (case recognition_step batch_id (w1, db) of
              (w1', db') \<Rightarrow> interleave batch_id schedule (w1', w2, db')))"

section \<open>Example data\<close>

definition empty_database :: database where
  "empty_database =
     \<lparr> address_validation_batches = [], address_validation_items = [],
       address_recognition_batches = [], address_recognition_items = [],
       uuid4_next = 0, now = 0 \<rparr>"

definition main_street :: AddressInputSchema where
  "main_street =
     \<lparr> name = None, phone = None, email = None, company_name = None,
       address_line1 = ''1 main st'', address_line2 = None, address_line3 = None,
       city_locality = ''springfield'', state_province = ''il'', postal_code = JNone,
       country_code = ''us'', address_residential_indicator = ''unknown'' \<rparr>"

text \<open>An address the input schema accepts (\<open>address_line1\<close> has one character) whose
  first line is a single space.\<close>

definition blank_line :: AddressInputSchema where
  "blank_line = main_street \<lparr> address_line1 := '' '' \<rparr>"

definition some_text :: RecognitionRequestSchema where
  "some_text = \<lparr> text_of = ''1 main st'', address = None \<rparr>"

text \<open>Stores the operations produce from the empty one: one validation and one
  recognition batch, submitted asynchronously (identifiers 0 and 1); the same submitted
  synchronously (batches 0 and 2); and the two kinds submitted with no record at all
  (batch 0 synchronously, batch 1 asynchronously).\<close>

definition queued_store :: database where
  "queued_store =
     snd (create_queued_recognition_batch
            (snd (create_queued_batch empty_database [main_street])) [some_text])"

definition sync_store :: database where
  "sync_store =
     snd (recognize_and_store_addresses
            (snd (validate_and_store_addresses empty_database [main_street])) [some_text])"

definition empty_batches_store :: database where
  "empty_batches_store =
     snd (create_queued_recognition_batch
            (snd (validate_and_store_addresses empty_database [])) [])"

text \<open>The store as the transaction of \<open>process_batch_validation\<close> has it after its
  first status update.\<close>

definition processing_store :: database where
  "processing_store = update_validation_status queued_store 0 ''processing''"

text \<open>The record of the specification's example, as a dictionary, and the record the
  specification expects of the validation Transform.\<close>

definition spec_example_input :: jdict where
  "spec_example_input =
     [(''address_line1'', JStr ''1 main st''),
      (''country_code'', JStr ''us''),
      (''address_residential_indicator'', JNone)]"

definition spec_example_output :: jdict where
  "spec_example_output =
     [(''ADDRESS_LINE1'', JStr ''1 MAIN ST''),
      (''COUNTRY_CODE'', JStr ''US''),
      (''address_residential_indicator'', JStr ''unknown'')]"

text \<open>The value one round of the loop of \<open>_normalize_address_data\<close> stores under
  the field name (shown below to be what \<open>normalize_field\<close> stores).\<close>

definition normalized_value :: "string \<Rightarrow> jval \<Rightarrow> jval" where
  "normalized_value field_name field_value =
     (case field_value of
        JStr s \<Rightarrow>
          (if field_name = ''address_residential_indicator'' then
             JStr (if lower (strip s) \<notin> set [''unknown'', ''yes'', ''no'']
                   then ''unknown'' else lower (strip s))
           else if field_name = ''country_code'' then JStr (upper (strip s))
           else if field_name = ''email'' then JStr (lower (strip s))
           else JStr (upper (strip s)))
      | _ \<Rightarrow> field_value)"

text \<open>The store after a worker has processed both batches of
  \<open>empty_batches_store\<close>.\<close>

definition failed_store :: database where
  "failed_store =
     run (ProcessRecognitionBatch 1) (run (ProcessBatchValidation 0) empty_batches_store)"

section \<open>Facts about the store\<close>

lemma find_Some_filter: "(\<exists>z. find P xs = Some z) \<longleftrightarrow> filter P xs \<noteq> []"
  by (induction xs) auto

lemma existing_item_iff:
  "(\<exists>z. find (\<lambda>i. vi_batch_id i = batch_id) (address_validation_items db) = Some z)
     \<longleftrightarrow> select_validation_items db batch_id \<noteq> []"
  by (simp add: select_validation_items_def find_Some_filter)

lemma validation_status_of_Some:
  "validation_status_of db batch_id = Some s \<longleftrightarrow>
     (\<exists>b. select_validation_batch db batch_id = Some b \<and> vb_status b = s)"
  by (auto simp add: validation_status_of_def)

lemma recognition_status_of_Some:
  "recognition_status_of db batch_id = Some s \<longleftrightarrow>
     (\<exists>b. get_recognition_batch db batch_id = Some b \<and> rb_status b = s)"
  by (auto simp add: recognition_status_of_def)

lemma find_map_vb_status:
  "find (\<lambda>b. vb_id b = k) (map (\<lambda>b. if vb_id b = j then b\<lparr>vb_status := st\<rparr> else b) xs)
     = map_option (\<lambda>b. if vb_id b = j then b\<lparr>vb_status := st\<rparr> else b)
         (find (\<lambda>b. vb_id b = k) xs)"
  by (induction xs) auto

lemma find_map_rb_status:
  "find (\<lambda>b. rb_id b = k) (map (\<lambda>b. if rb_id b = j then b\<lparr>rb_status := st\<rparr> else b) xs)
     = map_option (\<lambda>b. if rb_id b = j then b\<lparr>rb_status := st\<rparr> else b)
         (find (\<lambda>b. rb_id b = k) xs)"
  by (induction xs) auto

lemma find_vb_id: "find (\<lambda>b. vb_id b = k) xs = Some b \<Longrightarrow> vb_id b = k"
  by (induction xs) (auto split: if_splits)

lemma find_rb_id: "find (\<lambda>b. rb_id b = k) xs = Some b \<Longrightarrow> rb_id b = k"
  by (induction xs) (auto split: if_splits)

lemma validation_status_of_update:
  "validation_status_of (update_validation_status db j st) k =
     (if k = j then map_option (\<lambda>_. st) (validation_status_of db k)
      else validation_status_of db k)"
  by (cases "find (\<lambda>b. vb_id b = k) (address_validation_batches db)")
     (auto simp: validation_status_of_def update_validation_status_def
        select_validation_batch_def find_map_vb_status dest: find_vb_id)

lemma recognition_status_of_update:
  "recognition_status_of (update_recognition_status db j st) k =
     (if k = j then map_option (\<lambda>_. st) (recognition_status_of db k)
      else recognition_status_of db k)"
  by (cases "find (\<lambda>b. rb_id b = k) (address_recognition_batches db)")
     (auto simp: recognition_status_of_def update_recognition_status_def
        get_recognition_batch_def find_map_rb_status dest: find_rb_id)

lemma validation_payload_empty:
  "select_validation_batch db batch_id = Some b \<Longrightarrow>
     validation_payload_of db batch_id = [] \<longleftrightarrow>
       (case vb_request_payload b of None \<Rightarrow> [] | Some p \<Rightarrow> p) = []"
  by (simp add: validation_payload_of_def)

lemma recognition_payload_empty:
  "get_recognition_batch db batch_id = Some b \<Longrightarrow>
     recognition_payload_of db batch_id = [] \<longleftrightarrow>
       (case rb_request_payload b of None \<Rightarrow> [] | Some p \<Rightarrow> p) = []"
  by (simp add: recognition_payload_of_def)

subsection \<open>The example stores\<close>

lemma queued_store_facts:
  "validation_status_of queued_store 0 = Some ''queued''"
  "recognition_status_of queued_store 1 = Some ''queued''"
  "select_validation_batch queued_store 7 = None"
  "get_recognition_batch queued_store 7 = None"
  "select_validation_items queued_store 0 = []"
  by code_simp+

lemma sync_store_facts:
  "validation_status_of sync_store 0 = Some ''completed''"
  "select_validation_items sync_store 0 \<noteq> []"
  "recognition_status_of sync_store 2 = Some ''completed''"
  "select_recognition_items sync_store 2 \<noteq> []"
  by code_simp+

lemma empty_batches_store_facts:
  "validation_status_of empty_batches_store 0 = Some ''completed''"
  "validation_payload_of empty_batches_store 0 = []"
  "select_validation_items empty_batches_store 0 = []"
  "recognition_status_of empty_batches_store 1 = Some ''queued''"
  "recognition_payload_of empty_batches_store 1 = []"
  by code_simp+

lemma processing_store_facts:
  "validation_status_of processing_store 0 = Some ''processing''"
  by code_simp

section \<open>The guards of the processing routines\<close>

text \<open>
  C10. A batch identifier no stored batch has: \<open>process_batch_validation\<close> and
  \<open>process_recognition_batch\<close> return without raising and leave the whole store as it
  was.
\<close>

theorem process_unknown_batch_silent:
  "(select_validation_batch db batch_id = None \<longrightarrow>
      process_batch_validation db batch_id = (Inr (), db))
   \<and> (get_recognition_batch db recognition_id = None \<longrightarrow>
      process_recognition_batch db recognition_id = (Inr (), db))"
  by (simp add: process_batch_validation_def process_recognition_batch_def)

theorem process_unknown_batch_silent_witness:
  "select_validation_batch queued_store 7 = None
   \<and> get_recognition_batch queued_store 7 = None
   \<and> process_batch_validation queued_store 7 = (Inr (), queued_store)
   \<and> process_recognition_batch queued_store 7 = (Inr (), queued_store)"
  using process_unknown_batch_silent [of queued_store 7 7] queued_store_facts
  by simp

text \<open>
  C1. A batch with status \<open>completed\<close> and at least one item: the processing routine of
  its kind returns at once and the store is the same afterwards (so the status, the item
  rows and their number are), also when it is invoked a second time.
\<close>

theorem process_completed_batch_noop:
  "(validation_status_of db batch_id = Some ''completed''
      \<and> select_validation_items db batch_id \<noteq> [] \<longrightarrow>
      process_batch_validation db batch_id = (Inr (), db)
      \<and> process_batch_validation (snd (process_batch_validation db batch_id)) batch_id
          = (Inr (), db))
   \<and> (recognition_status_of db recognition_id = Some ''completed''
      \<and> select_recognition_items db recognition_id \<noteq> [] \<longrightarrow>
      process_recognition_batch db recognition_id = (Inr (), db)
      \<and> process_recognition_batch (snd (process_recognition_batch db recognition_id))
            recognition_id
          = (Inr (), db))"
proof (intro conjI impI)
  assume a: "validation_status_of db batch_id = Some ''completed''
      \<and> select_validation_items db batch_id \<noteq> []"
  then obtain b where b: "select_validation_batch db batch_id = Some b"
      "vb_status b = ''completed''"
    by (auto simp add: validation_status_of_Some)
  show p: "process_batch_validation db batch_id = (Inr (), db)"
    using a b by (simp add: process_batch_validation_def existing_item_iff)
  show "process_batch_validation (snd (process_batch_validation db batch_id)) batch_id
          = (Inr (), db)"
    by (simp add: p)
next
  assume a: "recognition_status_of db recognition_id = Some ''completed''
      \<and> select_recognition_items db recognition_id \<noteq> []"
  then obtain b where b: "get_recognition_batch db recognition_id = Some b"
      "rb_status b = ''completed''"
    by (auto simp add: recognition_status_of_Some)
  show p: "process_recognition_batch db recognition_id = (Inr (), db)"
    using b by (simp add: process_recognition_batch_def)
  show "process_recognition_batch (snd (process_recognition_batch db recognition_id))
          recognition_id = (Inr (), db)"
    by (simp add: p)
qed

theorem process_completed_batch_noop_witness:
  "validation_status_of sync_store 0 = Some ''completed''
   \<and> select_validation_items sync_store 0 \<noteq> []
   \<and> recognition_status_of sync_store 2 = Some ''completed''
   \<and> select_recognition_items sync_store 2 \<noteq> []
   \<and> process_batch_validation sync_store 0 = (Inr (), sync_store)
   \<and> process_batch_validation (snd (process_batch_validation sync_store 0)) 0
       = (Inr (), sync_store)
   \<and> process_recognition_batch sync_store 2 = (Inr (), sync_store)
   \<and> process_recognition_batch (snd (process_recognition_batch sync_store 2)) 2
       = (Inr (), sync_store)"
  using process_completed_batch_noop [of sync_store 0 2] sync_store_facts
  by simp

text \<open>
  C6, as the specification states it, fails for the recognition kind. The idempotency
  guard of the specification stops a batch that is \<open>completed\<close> and has an item. The
  synchronous recognition path, given no request, stores a batch with status
  \<open>completed\<close>, an empty payload and no item: it passes that guard, yet
  \<open>process_recognition_batch\<close> returns at its own guard (status \<open>processing\<close> or
  \<open>completed\<close>) and the batch stays \<open>completed\<close>.
\<close>

theorem process_empty_payload_counterexample:
  "recognition_status_of (snd (recognize_and_store_addresses empty_database [])) 0
     = Some ''completed''
   \<and> select_recognition_items (snd (recognize_and_store_addresses empty_database [])) 0 = []
   \<and> recognition_payload_of (snd (recognize_and_store_addresses empty_database [])) 0 = []
   \<and> process_recognition_batch (snd (recognize_and_store_addresses empty_database [])) 0
       = (Inr (), snd (recognize_and_store_addresses empty_database []))
   \<and> recognition_status_of
         (snd (process_recognition_batch
                 (snd (recognize_and_store_addresses empty_database [])) 0)) 0
       \<noteq> Some ''failed''"
  by code_simp

text \<open>
  C6, amended. A batch whose stored payload is empty (\<open>NULL\<close> or the empty list) and
  that is not stopped by the guard of its own routine (validation: \<open>completed\<close> with
  an item; recognition: \<open>processing\<close> or \<open>completed\<close>): the routine returns, the
  status of the batch is \<open>failed\<close>, and the item table is what it was.
\<close>

theorem process_empty_payload_fails:
  "(validation_status_of db batch_id = Some s
      \<and> \<not> (s = ''completed'' \<and> select_validation_items db batch_id \<noteq> [])
      \<and> validation_payload_of db batch_id = [] \<longrightarrow>
      fst (process_batch_validation db batch_id) = Inr ()
      \<and> validation_status_of (snd (process_batch_validation db batch_id)) batch_id
          = Some ''failed''
      \<and> address_validation_items (snd (process_batch_validation db batch_id))
          = address_validation_items db)
   \<and> (recognition_status_of db recognition_id = Some rs
      \<and> rs \<notin> set [''processing'', ''completed'']
      \<and> recognition_payload_of db recognition_id = [] \<longrightarrow>
      fst (process_recognition_batch db recognition_id) = Inr ()
      \<and> recognition_status_of (snd (process_recognition_batch db recognition_id))
            recognition_id
          = Some ''failed''
      \<and> address_recognition_items (snd (process_recognition_batch db recognition_id))
          = address_recognition_items db)"
proof (intro conjI impI)
  assume a: "validation_status_of db batch_id = Some s
      \<and> \<not> (s = ''completed'' \<and> select_validation_items db batch_id \<noteq> [])
      \<and> validation_payload_of db batch_id = []"
  then obtain b where b: "select_validation_batch db batch_id = Some b" "vb_status b = s"
    by (auto simp add: validation_status_of_Some)
  have e: "(case vb_request_payload b of None \<Rightarrow> [] | Some p \<Rightarrow> p) = []"
    using a b(1) by (simp add: validation_payload_empty)
  have p: "process_batch_validation db batch_id
             = (Inr (), update_validation_status db batch_id ''failed'')"
    using a b e by (auto simp add: process_batch_validation_def existing_item_iff)
  show "fst (process_batch_validation db batch_id) = Inr ()"
    by (simp add: p)
  show "validation_status_of (snd (process_batch_validation db batch_id)) batch_id
          = Some ''failed''"
    using a by (simp add: p validation_status_of_update)
  show "address_validation_items (snd (process_batch_validation db batch_id))
          = address_validation_items db"
    by (simp add: p update_validation_status_def)
next
  assume a: "recognition_status_of db recognition_id = Some rs
      \<and> rs \<notin> set [''processing'', ''completed'']
      \<and> recognition_payload_of db recognition_id = []"
  then obtain b where b: "get_recognition_batch db recognition_id = Some b" "rb_status b = rs"
    by (auto simp add: recognition_status_of_Some)
  have e: "(case rb_request_payload b of None \<Rightarrow> [] | Some p \<Rightarrow> p) = []"
    using a b(1) by (simp add: recognition_payload_empty)
  have p: "process_recognition_batch db recognition_id
             = (Inr (), update_recognition_status db recognition_id ''failed'')"
    using a b e by (auto simp add: process_recognition_batch_def)
  show "fst (process_recognition_batch db recognition_id) = Inr ()"
    by (simp add: p)
  show "recognition_status_of (snd (process_recognition_batch db recognition_id))
          recognition_id = Some ''failed''"
    using a by (simp add: p recognition_status_of_update)
  show "address_recognition_items (snd (process_recognition_batch db recognition_id))
          = address_recognition_items db"
    by (simp add: p update_recognition_status_def)
qed

theorem process_empty_payload_fails_witness:
  "validation_status_of empty_batches_store 0 = Some ''completed''
   \<and> \<not> (''completed'' = ''completed'' \<and> select_validation_items empty_batches_store 0 \<noteq> [])
   \<and> validation_payload_of empty_batches_store 0 = []
   \<and> recognition_status_of empty_batches_store 1 = Some ''queued''
   \<and> ''queued'' \<notin> set [''processing'', ''completed'']
   \<and> recognition_payload_of empty_batches_store 1 = []
   \<and> fst (process_batch_validation empty_batches_store 0) = Inr ()
   \<and> validation_status_of (snd (process_batch_validation empty_batches_store 0)) 0
       = Some ''failed''
   \<and> address_validation_items (snd (process_batch_validation empty_batches_store 0))
       = address_validation_items empty_batches_store
   \<and> fst (process_recognition_batch empty_batches_store 1) = Inr ()
   \<and> recognition_status_of (snd (process_recognition_batch empty_batches_store 1)) 1
       = Some ''failed''
   \<and> address_recognition_items (snd (process_recognition_batch empty_batches_store 1))
       = address_recognition_items empty_batches_store"
  using process_empty_payload_fails [of empty_batches_store 0 "''completed''" 1 "''queued''"]
    empty_batches_store_facts
  by simp

section \<open>Requeueing\<close>

lemma payload_falsy:
  "(case p of None \<Rightarrow> [] | Some q \<Rightarrow> q) = [] \<longleftrightarrow> p = None \<or> p = Some []"
  by (cases p) auto

text \<open>
  C4. A batch whose status is \<open>processing\<close>: \<open>reset_batch_for_processing\<close> raises
  \<open>RuntimeError\<close> and the store is unchanged; the requeue endpoint turns that into
  the HTTP conflict 409, enqueues no job and leaves the application state as it was.
\<close>

theorem requeue_processing_conflict:
  "validation_status_of (app_db app) batch_id = Some ''processing'' \<longrightarrow>
     reset_batch_for_processing (app_db app) batch_id
       = (Inl (RuntimeError ''processing''), app_db app)
     \<and> requeue_validation_batch_endpoint app batch_id
       = (Inl (HTTPException 409 ''batch is processing''), app)"
proof
  assume "validation_status_of (app_db app) batch_id = Some ''processing''"
  then obtain b where b: "select_validation_batch (app_db app) batch_id = Some b"
      "vb_status b = ''processing''"
    by (auto simp add: validation_status_of_Some)
  have r: "reset_batch_for_processing (app_db app) batch_id
             = (Inl (RuntimeError ''processing''), app_db app)"
    using b by (simp add: reset_batch_for_processing_def)
  show "reset_batch_for_processing (app_db app) batch_id
          = (Inl (RuntimeError ''processing''), app_db app)
        \<and> requeue_validation_batch_endpoint app batch_id
          = (Inl (HTTPException 409 ''batch is processing''), app)"
    by (simp add: r requeue_validation_batch_endpoint_def)
qed

theorem requeue_processing_conflict_witness:
  "validation_status_of (app_db \<lparr> app_db = processing_store, redis_jobs = [] \<rparr>) 0
     = Some ''processing''
   \<and> reset_batch_for_processing processing_store 0
       = (Inl (RuntimeError ''processing''), processing_store)
   \<and> requeue_validation_batch_endpoint \<lparr> app_db = processing_store, redis_jobs = [] \<rparr> 0
       = (Inl (HTTPException 409 ''batch is processing''),
          \<lparr> app_db = processing_store, redis_jobs = [] \<rparr>)"
  using requeue_processing_conflict [of "\<lparr> app_db = processing_store, redis_jobs = [] \<rparr>" 0]
    processing_store_facts
  by simp

text \<open>
  C5. A batch that is not \<open>processing\<close> and whose stored payload is empty
  (\<open>NULL\<close> or the empty list): \<open>reset_batch_for_processing\<close> returns \<open>False\<close> and
  the status of the batch is \<open>failed\<close>, not \<open>queued\<close>; the endpoint answers 404 and
  enqueues no job.
\<close>

theorem requeue_empty_payload_fails:
  "validation_status_of (app_db app) batch_id = Some s \<and> s \<noteq> ''processing''
     \<and> validation_payload_of (app_db app) batch_id = [] \<longrightarrow>
     fst (reset_batch_for_processing (app_db app) batch_id) = Inr False
     \<and> validation_status_of (snd (reset_batch_for_processing (app_db app) batch_id)) batch_id
         = Some ''failed''
     \<and> validation_status_of (snd (reset_batch_for_processing (app_db app) batch_id)) batch_id
         \<noteq> Some ''queued''
     \<and> fst (requeue_validation_batch_endpoint app batch_id)
         = Inl (HTTPException 404 ''batch_id not found'')
     \<and> redis_jobs (snd (requeue_validation_batch_endpoint app batch_id)) = redis_jobs app"
proof
  assume a: "validation_status_of (app_db app) batch_id = Some s \<and> s \<noteq> ''processing''
     \<and> validation_payload_of (app_db app) batch_id = []"
  then obtain b where b: "select_validation_batch (app_db app) batch_id = Some b"
      "vb_status b = s"
    by (auto simp add: validation_status_of_Some)
  have e: "vb_request_payload b = None \<or> vb_request_payload b = Some []"
    using a b(1) by (simp add: validation_payload_empty payload_falsy)
  have r: "reset_batch_for_processing (app_db app) batch_id
             = (Inr False, update_validation_status (app_db app) batch_id ''failed'')"
    using a b e by (simp add: reset_batch_for_processing_def)
  have s: "validation_status_of (update_validation_status (app_db app) batch_id ''failed'')
             batch_id = Some ''failed''"
    using a by (simp add: validation_status_of_update)
  show "fst (reset_batch_for_processing (app_db app) batch_id) = Inr False
     \<and> validation_status_of (snd (reset_batch_for_processing (app_db app) batch_id)) batch_id
         = Some ''failed''
     \<and> validation_status_of (snd (reset_batch_for_processing (app_db app) batch_id)) batch_id
         \<noteq> Some ''queued''
     \<and> fst (requeue_validation_batch_endpoint app batch_id)
         = Inl (HTTPException 404 ''batch_id not found'')
     \<and> redis_jobs (snd (requeue_validation_batch_endpoint app batch_id)) = redis_jobs app"
    by (simp add: r s requeue_validation_batch_endpoint_def)
qed

theorem requeue_empty_payload_fails_witness:
  "validation_status_of (app_db \<lparr> app_db = empty_batches_store, redis_jobs = [] \<rparr>) 0
     = Some ''completed''
   \<and> ''completed'' \<noteq> ''processing''
   \<and> validation_payload_of (app_db \<lparr> app_db = empty_batches_store, redis_jobs = [] \<rparr>) 0 = []
   \<and> fst (reset_batch_for_processing empty_batches_store 0) = Inr False
   \<and> validation_status_of (snd (reset_batch_for_processing empty_batches_store 0)) 0
       = Some ''failed''
   \<and> fst (requeue_validation_batch_endpoint
             \<lparr> app_db = empty_batches_store, redis_jobs = [] \<rparr> 0)
       = Inl (HTTPException 404 ''batch_id not found'')
   \<and> redis_jobs (snd (requeue_validation_batch_endpoint
                         \<lparr> app_db = empty_batches_store, redis_jobs = [] \<rparr> 0)) = []"
  using requeue_empty_payload_fails
          [of "\<lparr> app_db = empty_batches_store, redis_jobs = [] \<rparr>" 0 "''completed''"]
    empty_batches_store_facts
  by simp

section \<open>Reading results\<close>


lemma unknown_batch_has_no_items:
  assumes "validation_items_owned db" and "select_validation_batch db batch_id = None"
  shows "select_validation_items db batch_id = []"
proof (rule ccontr)
  assume "select_validation_items db batch_id \<noteq> []"
  then obtain i where "i \<in> set (address_validation_items db)" "vi_batch_id i = batch_id"
    by (auto simp add: select_validation_items_def filter_empty_conv)
  with assms show False
    by (auto simp add: validation_items_owned_def list_all_iff)
qed





section \<open>The validation Transform\<close>

lemma normalize_field_update:
  "normalize_field (k, v) acc = AList.update k (normalized_value k v) acc"
  by (cases v) (simp_all add: normalize_field_def normalized_value_def Let_def)

lemma map_of_fold_normalize_field:
  "map_of (fold normalize_field d acc) k =
     (case map_of (rev d) k of
        None \<Rightarrow> map_of acc k
      | Some v \<Rightarrow> Some (normalized_value k v))"
proof (induction d arbitrary: acc)
  case Nil
  then show ?case by simp
next
  case (Cons e d)
  obtain j v where e: "e = (j, v)" by (cases e)
  show ?case
    by (simp add: Cons.IH e normalize_field_update update_conv' map_add_def
        split: option.splits)
qed

text \<open>The Transform keeps every field name and stores the normalized value under it; a
  name it adds is \<open>address_residential_indicator\<close>, when the record has none.\<close>

lemma map_of_normalize_address_data:
  "map_of (normalize_address_data d) k =
     (case map_of (rev d) k of
        Some v \<Rightarrow> Some (normalized_value k v)
      | None \<Rightarrow> if k = ''address_residential_indicator'' then Some (JStr ''unknown'') else None)"
  by (simp add: normalize_address_data_def Let_def map_of_fold_normalize_field update_conv'
      split: option.splits)

lemma spec_example_normalized:
  "normalize_address_data spec_example_input =
     [(''address_line1'', JStr ''1 MAIN ST''),
      (''country_code'', JStr ''US''),
      (''address_residential_indicator'', JNone)]"
  by code_simp

lemma spec_example_not_schema_valid:
  "AddressInputSchema_model_validate spec_example_input = Inl ValidationError"
  by code_simp

lemma transform_example_values:
  "upper (strip ''1 main st'') = ''1 MAIN ST''"
  "upper (strip ''us'') = ''US''"
  "upper ''us'' = ''US''"
  "lower (strip ''unknown'') = ''unknown''"
  "validate_residential_indicator JNone = ''unknown''"
  by code_simp+

text \<open>
  C7, as the specification states it, fails: on the example record the Transform does
  not produce the record with the upper-case field names \<open>ADDRESS_LINE1\<close> and
  \<open>COUNTRY_CODE\<close>.
\<close>

theorem transform_example_counterexample:
  "normalize_address_data spec_example_input \<noteq> spec_example_output"
  by (simp add: spec_example_normalized spec_example_output_def)

text \<open>
  C7, amended. For a record of the input schema with \<open>address_line1\<close>
  \<open>"1 main st"\<close>, \<open>country_code\<close> \<open>"us"\<close>, no postal code, and the residential
  indicator the schema makes of \<open>null\<close> (which is \<open>"unknown"\<close>): the Transform keeps
  the field names as they are and stores \<open>"1 MAIN ST"\<close>, \<open>"US"\<close> and
  \<open>"unknown"\<close> under them; there is exactly one diagnostic, \<open>missing_postal_code\<close> at
  level \<open>warning\<close>, and the status is \<open>verified\<close>.
\<close>

theorem transform_example:
  assumes "address_line1 a = ''1 main st''"
      and "country_code a = ''us''"
      and "postal_code a = JNone"
      and "address_residential_indicator a = validate_residential_indicator JNone"
  shows "map_of (normalize_address_data (AddressInputSchema_model_dump a)) ''address_line1''
           = Some (JStr ''1 MAIN ST'')
       \<and> map_of (normalize_address_data (AddressInputSchema_model_dump a)) ''country_code''
           = Some (JStr ''US'')
       \<and> map_of (normalize_address_data (AddressInputSchema_model_dump a))
             ''address_residential_indicator''
           = Some (JStr ''unknown'')
       \<and> map_of (normalize_address_data (AddressInputSchema_model_dump a)) ''ADDRESS_LINE1''
           = None
       \<and> map_of (normalize_address_data (AddressInputSchema_model_dump a)) ''COUNTRY_CODE''
           = None
       \<and> determine_validation_status a
           = (''verified'',
              [\<lparr> code = ''missing_postal_code'',
                 message = ''postal_code is recommended for US'',
                 level = ''warning'' \<rparr>])"
proof -
  let ?d = "AddressInputSchema_model_dump a"
  have d: "map_of (rev ?d) ''address_line1'' = Some (JStr (address_line1 a))"
    "map_of (rev ?d) ''country_code'' = Some (JStr (country_code a))"
    "map_of (rev ?d) ''address_residential_indicator''
       = Some (JStr (address_residential_indicator a))"
    "map_of (rev ?d) ''ADDRESS_LINE1'' = None"
    "map_of (rev ?d) ''COUNTRY_CODE'' = None"
    by (simp_all add: AddressInputSchema_model_dump_def)
  have n: "map_of (normalize_address_data ?d) ''address_line1'' = Some (JStr ''1 MAIN ST'')"
    "map_of (normalize_address_data ?d) ''country_code'' = Some (JStr ''US'')"
    "map_of (normalize_address_data ?d) ''address_residential_indicator''
       = Some (JStr ''unknown'')"
    "map_of (normalize_address_data ?d) ''ADDRESS_LINE1'' = None"
    "map_of (normalize_address_data ?d) ''COUNTRY_CODE'' = None"
    using assms
    by (simp_all add: map_of_normalize_address_data d normalized_value_def
        transform_example_values)
  have s: "determine_validation_status a
           = (''verified'',
              [\<lparr> code = ''missing_postal_code'',
                 message = ''postal_code is recommended for US'',
                 level = ''warning'' \<rparr>])"
    using assms by (simp add: determine_validation_status_def falsy_def transform_example_values)
  show ?thesis
    using n s by simp
qed

theorem transform_example_witness:
  "address_line1 main_street = ''1 main st''
   \<and> country_code main_street = ''us''
   \<and> postal_code main_street = JNone
   \<and> address_residential_indicator main_street = validate_residential_indicator JNone
   \<and> map_of (normalize_address_data (AddressInputSchema_model_dump main_street))
         ''address_line1''
       = Some (JStr ''1 MAIN ST'')
   \<and> map_of (normalize_address_data (AddressInputSchema_model_dump main_street))
         ''country_code''
       = Some (JStr ''US'')
   \<and> map_of (normalize_address_data (AddressInputSchema_model_dump main_street))
         ''address_residential_indicator''
       = Some (JStr ''unknown'')
   \<and> determine_validation_status main_street
       = (''verified'',
          [\<lparr> code = ''missing_postal_code'',
             message = ''postal_code is recommended for US'',
             level = ''warning'' \<rparr>])"
proof -
  have h: "address_line1 main_street = ''1 main st''" "country_code main_street = ''us''"
    "postal_code main_street = JNone"
    "address_residential_indicator main_street = validate_residential_indicator JNone"
    by (simp_all add: main_street_def transform_example_values)
  show ?thesis
    using transform_example [OF h] h by simp
qed

section \<open>Which operations change the status of a batch\<close>

lemma find_append:
  "find P (xs @ ys) = (case find P xs of None \<Rightarrow> find P ys | Some x \<Rightarrow> Some x)"
  by (induction xs) auto

lemma find_filter_other:
  "k \<noteq> j \<Longrightarrow> find (\<lambda>b. f b = k) (filter (\<lambda>b. f b \<noteq> j) xs) = find (\<lambda>b. f b = k) xs"
  by (induction xs) auto

lemma find_filter_same: "find (\<lambda>b. f b = k) (filter (\<lambda>b. f b \<noteq> k) xs) = None"
  by (induction xs) auto

subsection \<open>The tables an operation leaves alone\<close>

lemma validation_status_of_cong:
  "address_validation_batches db' = address_validation_batches db \<Longrightarrow>
     validation_status_of db' k = validation_status_of db k"
  by (simp add: validation_status_of_def select_validation_batch_def)

lemma recognition_status_of_cong:
  "address_recognition_batches db' = address_recognition_batches db \<Longrightarrow>
     recognition_status_of db' k = recognition_status_of db k"
  by (simp add: recognition_status_of_def get_recognition_batch_def)

lemma batches_store_validation_item [simp]:
  "address_validation_batches (store_validation_item b a db) = address_validation_batches db"
  "address_recognition_batches (store_validation_item b a db) = address_recognition_batches db"
  by (simp_all add: store_validation_item_def add_validation_item_def Let_def split: prod.splits)

lemma batches_fold_store_validation_item [simp]:
  "address_validation_batches (fold (store_validation_item b) as db)
     = address_validation_batches db"
  "address_recognition_batches (fold (store_validation_item b) as db)
     = address_recognition_batches db"
  by (induction as arbitrary: db) simp_all

lemma batches_store_recognition_item [simp]:
  "address_validation_batches (store_recognition_item b a db) = address_validation_batches db"
  "address_recognition_batches (store_recognition_item b a db) = address_recognition_batches db"
  by (simp_all add: store_recognition_item_def add_recognition_item_def Let_def)

lemma batches_fold_store_recognition_item [simp]:
  "address_validation_batches (fold (store_recognition_item b) as db)
     = address_validation_batches db"
  "address_recognition_batches (fold (store_recognition_item b) as db)
     = address_recognition_batches db"
  by (induction as arbitrary: db) simp_all

lemma batches_validate_loop:
  "validate_loop b as db acc = Inr (db', results) \<Longrightarrow>
     address_validation_batches db' = address_validation_batches db
     \<and> address_recognition_batches db' = address_recognition_batches db"
proof (induction as arbitrary: db acc)
  case Nil
  then show ?case by simp
next
  case (Cons a as)
  from Cons.prems show ?case
    by (auto simp add: bindE_def Let_def add_validation_item_def
        split: sum.splits prod.splits dest!: Cons.IH)
qed

lemma batches_recognize_loop:
  "recognize_loop b as db acc = Inr (db', results) \<Longrightarrow>
     address_validation_batches db' = address_validation_batches db
     \<and> address_recognition_batches db' = address_recognition_batches db"
proof (induction as arbitrary: db acc)
  case Nil
  then show ?case by simp
next
  case (Cons a as)
  from Cons.prems show ?case
    by (auto simp add: bindE_def Let_def add_recognition_item_def
        split: sum.splits dest!: Cons.IH)
qed

lemma batches_statements [simp]:
  "address_validation_batches (delete_validation_items db b) = address_validation_batches db"
  "address_recognition_batches (delete_validation_items db b) = address_recognition_batches db"
  "address_recognition_batches (update_validation_status db b st)
     = address_recognition_batches db"
  "address_recognition_batches (delete_validation_batch db b) = address_recognition_batches db"
  "address_validation_batches (delete_recognition_items db b) = address_validation_batches db"
  "address_recognition_batches (delete_recognition_items db b)
     = address_recognition_batches db"
  "address_validation_batches (update_recognition_status db b st)
     = address_validation_batches db"
  by (simp_all add: delete_validation_items_def update_validation_status_def
      delete_validation_batch_def delete_recognition_items_def update_recognition_status_def)

lemma status_of_statements [simp]:
  "validation_status_of (delete_validation_items db b) k = validation_status_of db k"
  "validation_status_of (fold (store_validation_item b) as db) k = validation_status_of db k"
  "recognition_status_of (delete_recognition_items db b) k = recognition_status_of db k"
  "recognition_status_of (fold (store_recognition_item b) rs db) k
     = recognition_status_of db k"
  by (simp_all add: validation_status_of_def select_validation_batch_def
      recognition_status_of_def get_recognition_batch_def)

subsection \<open>Each validation operation, seen from a validation batch\<close>

lemma status_after_insert_validation_batch:
  "validation_status_of db k = Some s \<Longrightarrow>
     validation_status_of (snd (insert_validation_batch db st p)) k = Some s"
  by (auto simp add: validation_status_of_def select_validation_batch_def
      insert_validation_batch_def find_append)

lemma status_after_create_queued_batch:
  "validation_status_of db k = Some s \<Longrightarrow>
     validation_status_of (snd (create_queued_batch db as)) k = Some s"
  by (auto simp add: create_queued_batch_def validation_status_of_def
      select_validation_batch_def insert_validation_batch_def find_append)

lemma status_after_validate_and_store:
  assumes "validation_status_of db k = Some s"
  shows "validation_status_of (snd (validate_and_store_addresses db as)) k = Some s"
proof -
  let ?p = "Some (map AddressInputSchema_model_dump as)"
  obtain n db1 where i: "insert_validation_batch db ''completed'' ?p = (n, db1)"
    by (cases "insert_validation_batch db ''completed'' ?p")
  have s1: "validation_status_of db1 k = Some s"
    using status_after_insert_validation_batch [OF assms, of "''completed''" ?p] i by simp
  show ?thesis
  proof (cases "validate_loop n as db1 []")
    case (Inl e)
    then show ?thesis
      using assms i by (simp add: validate_and_store_addresses_def Let_def)
  next
    case (Inr r)
    obtain db2 results where r: "r = (db2, results)" by (cases r)
    have "address_validation_batches db2 = address_validation_batches db1"
      using batches_validate_loop Inr r by blast
    then have "validation_status_of db2 k = Some s"
      using s1 validation_status_of_cong [of db2 db1 k] by simp
    then show ?thesis
      using i Inr r by (simp add: validate_and_store_addresses_def Let_def)
  qed
qed

lemma status_after_process_other:
  "j \<noteq> k \<Longrightarrow>
     validation_status_of (snd (process_batch_validation db j)) k = validation_status_of db k"
  by (simp add: process_batch_validation_def Let_def validation_status_of_update
      split: option.splits sum.splits)

lemma status_after_remove_other:
  "j \<noteq> k \<Longrightarrow> validation_status_of (snd (remove_batch db j)) k = validation_status_of db k"
  by (simp add: remove_batch_def validation_status_of_def select_validation_batch_def
      delete_validation_batch_def delete_validation_items_def find_filter_other
      split: option.splits)

lemma status_after_remove_same:
  "validation_status_of (snd (remove_batch db k)) k = validation_status_of db k
   \<or> validation_status_of (snd (remove_batch db k)) k = None"
  by (simp add: remove_batch_def validation_status_of_def select_validation_batch_def
      delete_validation_batch_def delete_validation_items_def find_filter_same
      split: option.splits)

lemma status_after_reset_other:
  "j \<noteq> k \<Longrightarrow>
     validation_status_of (snd (reset_batch_for_processing db j)) k = validation_status_of db k"
  by (simp add: reset_batch_for_processing_def validation_status_of_update
      split: option.splits)

lemma validation_batches_after_recognition:
  "address_validation_batches (snd (create_queued_recognition_batch db rs))
     = address_validation_batches db"
  "address_validation_batches (snd (recognize_and_store_addresses db rs))
     = address_validation_batches db"
  "address_validation_batches (snd (process_recognition_batch db j))
     = address_validation_batches db"
proof -
  show "address_validation_batches (snd (create_queued_recognition_batch db rs))
          = address_validation_batches db"
    by (simp add: create_queued_recognition_batch_def insert_recognition_batch_def)
  show "address_validation_batches (snd (recognize_and_store_addresses db rs))
          = address_validation_batches db"
    by (auto simp add: recognize_and_store_addresses_def insert_recognition_batch_def
        split: sum.splits dest!: batches_recognize_loop)
  show "address_validation_batches (snd (process_recognition_batch db j))
          = address_validation_batches db"
    by (simp add: process_recognition_batch_def Let_def split: option.splits sum.splits)
qed

lemma recognition_batches_after_validation:
  "address_recognition_batches (snd (create_queued_batch db as))
     = address_recognition_batches db"
  "address_recognition_batches (snd (validate_and_store_addresses db as))
     = address_recognition_batches db"
  "address_recognition_batches (snd (process_batch_validation db j))
     = address_recognition_batches db"
  "address_recognition_batches (snd (remove_batch db j)) = address_recognition_batches db"
  "address_recognition_batches (snd (reset_batch_for_processing db j))
     = address_recognition_batches db"
proof -
  show "address_recognition_batches (snd (create_queued_batch db as))
          = address_recognition_batches db"
    by (simp add: create_queued_batch_def insert_validation_batch_def)
  show "address_recognition_batches (snd (validate_and_store_addresses db as))
          = address_recognition_batches db"
    by (auto simp add: validate_and_store_addresses_def insert_validation_batch_def
        split: sum.splits dest!: batches_validate_loop)
  show "address_recognition_batches (snd (process_batch_validation db j))
          = address_recognition_batches db"
    by (simp add: process_batch_validation_def Let_def split: option.splits sum.splits)
  show "address_recognition_batches (snd (remove_batch db j)) = address_recognition_batches db"
    by (simp add: remove_batch_def split: option.splits)
  show "address_recognition_batches (snd (reset_batch_for_processing db j))
          = address_recognition_batches db"
    by (simp add: reset_batch_for_processing_def split: option.splits)
qed

subsection \<open>Each recognition operation, seen from a recognition batch\<close>

lemma status_after_create_queued_recognition:
  "recognition_status_of db k = Some s \<Longrightarrow>
     recognition_status_of (snd (create_queued_recognition_batch db rs)) k = Some s"
  by (auto simp add: create_queued_recognition_batch_def recognition_status_of_def
      get_recognition_batch_def insert_recognition_batch_def find_append)

lemma status_after_recognize_and_store:
  assumes "recognition_status_of db k = Some s"
  shows "recognition_status_of (snd (recognize_and_store_addresses db rs)) k = Some s"
proof -
  let ?p = "Some (map RecognitionRequestSchema_model_dump rs)"
  obtain n db1 where i: "insert_recognition_batch db ''completed'' ?p = (n, db1)"
    by (cases "insert_recognition_batch db ''completed'' ?p")
  have s1: "recognition_status_of db1 k = Some s"
    using assms i
    by (auto simp add: recognition_status_of_def get_recognition_batch_def
        insert_recognition_batch_def find_append)
  show ?thesis
  proof (cases "recognize_loop n rs db1 []")
    case (Inl e)
    then show ?thesis
      using assms i by (simp add: recognize_and_store_addresses_def Let_def)
  next
    case (Inr r)
    obtain db2 results where r: "r = (db2, results)" by (cases r)
    have "address_recognition_batches db2 = address_recognition_batches db1"
      using batches_recognize_loop Inr r by blast
    then have "recognition_status_of db2 k = Some s"
      using s1 recognition_status_of_cong [of db2 db1 k] by simp
    then show ?thesis
      using i Inr r by (simp add: recognize_and_store_addresses_def Let_def)
  qed
qed

lemma status_after_process_recognition_other:
  "j \<noteq> k \<Longrightarrow>
     recognition_status_of (snd (process_recognition_batch db j)) k
       = recognition_status_of db k"
  by (simp add: process_recognition_batch_def Let_def recognition_status_of_update
      split: option.splits sum.splits)

text \<open>A batch of status \<open>failed\<close> with an empty payload is written \<open>failed\<close> again by
  the routine of its kind.\<close>

lemma failed_batch_stays_failed:
  "validation_status_of db k = Some ''failed'' \<Longrightarrow> validation_payload_of db k = [] \<Longrightarrow>
     validation_status_of (snd (process_batch_validation db k)) k = Some ''failed''"
  "recognition_status_of db k = Some ''failed'' \<Longrightarrow> recognition_payload_of db k = [] \<Longrightarrow>
     recognition_status_of (snd (process_recognition_batch db k)) k = Some ''failed''"
proof -
  assume a: "validation_status_of db k = Some ''failed''" "validation_payload_of db k = []"
  then obtain b where b: "select_validation_batch db k = Some b" "vb_status b = ''failed''"
    by (auto simp add: validation_status_of_Some)
  have "(case vb_request_payload b of None \<Rightarrow> [] | Some p \<Rightarrow> p) = []"
    using a(2) b(1) by (simp add: validation_payload_empty)
  then have "process_batch_validation db k = (Inr (), update_validation_status db k ''failed'')"
    using b by (simp add: process_batch_validation_def)
  then show "validation_status_of (snd (process_batch_validation db k)) k = Some ''failed''"
    using a(1) by (simp add: validation_status_of_update)
next
  assume a: "recognition_status_of db k = Some ''failed''" "recognition_payload_of db k = []"
  then obtain b where b: "get_recognition_batch db k = Some b" "rb_status b = ''failed''"
    by (auto simp add: recognition_status_of_Some)
  have "(case rb_request_payload b of None \<Rightarrow> [] | Some p \<Rightarrow> p) = []"
    using a(2) b(1) by (simp add: recognition_payload_empty)
  then have "process_recognition_batch db k
               = (Inr (), update_recognition_status db k ''failed'')"
    using b by (simp add: process_recognition_batch_def)
  then show "recognition_status_of (snd (process_recognition_batch db k)) k = Some ''failed''"
    using a(1) by (simp add: recognition_status_of_update)
qed

lemma completed_batch_stays_completed:
  "validation_status_of db k = Some ''completed'' \<Longrightarrow> select_validation_items db k \<noteq> [] \<Longrightarrow>
     process_batch_validation db k = (Inr (), db)"
  "recognition_status_of db k = Some ''completed'' \<Longrightarrow>
     process_recognition_batch db k = (Inr (), db)"
proof -
  assume a: "validation_status_of db k = Some ''completed''"
    "select_validation_items db k \<noteq> []"
  then obtain b where "select_validation_batch db k = Some b" "vb_status b = ''completed''"
    by (auto simp add: validation_status_of_Some)
  then show "process_batch_validation db k = (Inr (), db)"
    using a(2) by (simp add: process_batch_validation_def existing_item_iff)
next
  assume "recognition_status_of db k = Some ''completed''"
  then obtain b where "get_recognition_batch db k = Some b" "rb_status b = ''completed''"
    by (auto simp add: recognition_status_of_Some)
  then show "process_recognition_batch db k = (Inr (), db)"
    by (simp add: process_recognition_batch_def)
qed

lemma terminal_example_facts:
  "validation_status_of failed_store 0 = Some ''failed''"
  "validation_payload_of failed_store 0 = []"
  "recognition_status_of failed_store 1 = Some ''failed''"
  "recognition_payload_of failed_store 1 = []"
  by code_simp+

text \<open>
  C3, as the specification states it, fails. The synchronous path, given no record,
  stores a batch with status \<open>completed\<close>, an empty payload and no item;
  \<open>process_batch_validation\<close> on it does not stop at its guard (the batch has no item)
  and sets the status \<open>failed\<close>.
\<close>

theorem completed_terminal_counterexample:
  "validation_status_of (snd (validate_and_store_addresses empty_database [])) 0
     = Some ''completed''
   \<and> validation_status_of
         (snd (process_batch_validation
                 (snd (validate_and_store_addresses empty_database [])) 0)) 0
       = Some ''failed''"
  by code_simp

text \<open>
  C3, amended. Of a batch whose status is \<open>completed\<close> or \<open>failed\<close>, no operation
  changes the status except an explicit requeue and the processing routine: every other
  operation leaves it (deleting the batch removes the row). The processing routine
  leaves the status of a \<open>completed\<close> batch unchanged if the batch has an item
  (validation) or in any case (recognition), and leaves a \<open>failed\<close> batch with an empty
  payload \<open>failed\<close>.
\<close>

theorem terminal_states:
  "(validation_status_of db batch_id = Some s \<and> (s = ''completed'' \<or> s = ''failed'')
      \<and> r \<noteq> ResetBatchForProcessing batch_id
      \<and> (r = ProcessBatchValidation batch_id \<longrightarrow>
            (s = ''completed'' \<and> select_validation_items db batch_id \<noteq> [])
            \<or> (s = ''failed'' \<and> validation_payload_of db batch_id = []))
      \<longrightarrow> validation_status_of (run r db) batch_id = Some s
          \<or> (r = RemoveBatch batch_id \<and> validation_status_of (run r db) batch_id = None))
   \<and> (recognition_status_of db recognition_id = Some rs
      \<and> (rs = ''completed'' \<or> rs = ''failed'')
      \<and> (r = ProcessRecognitionBatch recognition_id \<longrightarrow>
            rs = ''completed'' \<or> recognition_payload_of db recognition_id = [])
      \<longrightarrow> recognition_status_of (run r db) recognition_id = Some rs)"
proof (intro conjI impI)
  assume a: "validation_status_of db batch_id = Some s \<and> (s = ''completed'' \<or> s = ''failed'')
      \<and> r \<noteq> ResetBatchForProcessing batch_id
      \<and> (r = ProcessBatchValidation batch_id \<longrightarrow>
            (s = ''completed'' \<and> select_validation_items db batch_id \<noteq> [])
            \<or> (s = ''failed'' \<and> validation_payload_of db batch_id = []))"
  then have s: "validation_status_of db batch_id = Some s" by simp
  show "validation_status_of (run r db) batch_id = Some s
          \<or> (r = RemoveBatch batch_id \<and> validation_status_of (run r db) batch_id = None)"
  proof (cases r)
    case (CreateQueuedBatch as)
    then show ?thesis using s by (simp add: status_after_create_queued_batch)
  next
    case (ValidateAndStoreAddresses as)
    then show ?thesis using s by (simp add: status_after_validate_and_store)
  next
    case (ProcessBatchValidation j)
    show ?thesis
    proof (cases "j = batch_id")
      case True
      then show ?thesis
        using a ProcessBatchValidation
        by (auto simp add: completed_batch_stays_completed failed_batch_stays_failed)
    next
      case False
      then show ?thesis
        using s ProcessBatchValidation by (simp add: status_after_process_other)
    qed
  next
    case (RetrieveBatchResults j)
    then show ?thesis using s by (simp add: retrieve_batch_results_def)
  next
    case (ListValidationBatches l k f)
    then show ?thesis using s by (simp add: list_validation_batches_def Let_def)
  next
    case (GetBatchInfo j)
    then show ?thesis using s by (simp add: get_batch_info_def split: option.splits sum.splits)
  next
    case (RemoveBatch j)
    show ?thesis
    proof (cases "j = batch_id")
      case True
      then show ?thesis
        using s RemoveBatch status_after_remove_same [of db batch_id] by auto
    next
      case False
      then show ?thesis
        using s RemoveBatch by (simp add: status_after_remove_other)
    qed
  next
    case (ResetBatchForProcessing j)
    then have "j \<noteq> batch_id" using a by simp
    then show ?thesis
      using s ResetBatchForProcessing by (simp add: status_after_reset_other)
  next
    case (CreateQueuedRecognitionBatch rs)
    then show ?thesis
      using s validation_status_of_cong [OF validation_batches_after_recognition(1)]
      by simp
  next
    case (RecognizeAndStoreAddresses rs)
    then show ?thesis
      using s validation_status_of_cong [OF validation_batches_after_recognition(2)]
      by simp
  next
    case (ProcessRecognitionBatch j)
    then show ?thesis
      using s validation_status_of_cong [OF validation_batches_after_recognition(3)]
      by simp
  next
    case (RetrieveRecognitionResults j)
    then show ?thesis using s by (simp add: retrieve_recognition_results_def)
  qed
next
  assume a: "recognition_status_of db recognition_id = Some rs
      \<and> (rs = ''completed'' \<or> rs = ''failed'')
      \<and> (r = ProcessRecognitionBatch recognition_id \<longrightarrow>
            rs = ''completed'' \<or> recognition_payload_of db recognition_id = [])"
  then have s: "recognition_status_of db recognition_id = Some rs" by simp
  show "recognition_status_of (run r db) recognition_id = Some rs"
  proof (cases r)
    case (CreateQueuedBatch as)
    then show ?thesis
      using s recognition_status_of_cong [OF recognition_batches_after_validation(1)]
      by simp
  next
    case (ValidateAndStoreAddresses as)
    then show ?thesis
      using s recognition_status_of_cong [OF recognition_batches_after_validation(2)]
      by simp
  next
    case (ProcessBatchValidation j)
    then show ?thesis
      using s recognition_status_of_cong [OF recognition_batches_after_validation(3)]
      by simp
  next
    case (RetrieveBatchResults j)
    then show ?thesis using s by (simp add: retrieve_batch_results_def)
  next
    case (ListValidationBatches l k f)
    then show ?thesis using s by (simp add: list_validation_batches_def Let_def)
  next
    case (GetBatchInfo j)
    then show ?thesis using s by (simp add: get_batch_info_def split: option.splits sum.splits)
  next
    case (RemoveBatch j)
    then show ?thesis
      using s recognition_status_of_cong [OF recognition_batches_after_validation(4)]
      by simp
  next
    case (ResetBatchForProcessing j)
    then show ?thesis
      using s recognition_status_of_cong [OF recognition_batches_after_validation(5)]
      by simp
  next
    case (CreateQueuedRecognitionBatch qs)
    then show ?thesis using s by (simp add: status_after_create_queued_recognition)
  next
    case (RecognizeAndStoreAddresses qs)
    then show ?thesis using s by (simp add: status_after_recognize_and_store)
  next
    case (ProcessRecognitionBatch j)
    show ?thesis
    proof (cases "j = recognition_id")
      case True
      then show ?thesis
        using a ProcessRecognitionBatch
        by (auto simp add: completed_batch_stays_completed failed_batch_stays_failed)
    next
      case False
      then show ?thesis
        using s ProcessRecognitionBatch by (simp add: status_after_process_recognition_other)
    qed
  next
    case (RetrieveRecognitionResults j)
    then show ?thesis using s by (simp add: retrieve_recognition_results_def)
  qed
qed

theorem terminal_states_witness:
  "validation_status_of sync_store 0 = Some ''completed''
   \<and> select_validation_items sync_store 0 \<noteq> []
   \<and> validation_status_of (run (ProcessBatchValidation 0) sync_store) 0 = Some ''completed''
   \<and> validation_status_of (run (CreateQueuedBatch [main_street]) sync_store) 0
       = Some ''completed''
   \<and> validation_status_of failed_store 0 = Some ''failed''
   \<and> validation_payload_of failed_store 0 = []
   \<and> validation_status_of (run (ProcessBatchValidation 0) failed_store) 0 = Some ''failed''
   \<and> recognition_status_of sync_store 2 = Some ''completed''
   \<and> recognition_status_of (run (ProcessRecognitionBatch 2) sync_store) 2
       = Some ''completed''
   \<and> recognition_status_of failed_store 1 = Some ''failed''
   \<and> recognition_payload_of failed_store 1 = []
   \<and> recognition_status_of (run (ProcessRecognitionBatch 1) failed_store) 1 = Some ''failed''"
proof -
  note c = terminal_states
             [of sync_store 0 "''completed''" "ProcessBatchValidation 0" 2 "''completed''"]
  note q = terminal_states
             [of sync_store 0 "''completed''" "CreateQueuedBatch [main_street]" 2
                 "''completed''"]
  note p = terminal_states
             [of sync_store 0 "''completed''" "ProcessRecognitionBatch 2" 2 "''completed''"]
  note f = terminal_states
             [of failed_store 0 "''failed''" "ProcessBatchValidation 0" 1 "''failed''"]
  note g = terminal_states
             [of failed_store 0 "''failed''" "ProcessRecognitionBatch 1" 1 "''failed''"]
  show ?thesis
    using c q p f g sync_store_facts terminal_example_facts by simp
qed

section \<open>The synchronous path\<close>

lemma validate_loop_length:
  "validate_loop batch_id addresses db acc = Inr (db', results) \<Longrightarrow>
     length results = length acc + length addresses"
proof (induction addresses arbitrary: db acc)
  case Nil
  then show ?case by simp
next
  case (Cons a addresses)
  from Cons.prems show ?case
    by (auto simp add: bindE_def Let_def split: sum.splits prod.splits dest!: Cons.IH)
qed

text \<open>Where the synchronous validation returns, it returns one result for each
  submitted record.\<close>

lemma validate_and_store_length:
  "validate_and_store_addresses db addresses = (Inr (batch_id, results), db') \<Longrightarrow>
     length results = length addresses"
  by (auto simp add: validate_and_store_addresses_def Let_def
      split: sum.splits prod.splits dest!: validate_loop_length)

text \<open>The results stand in the order of the submitted records: the result at a position
  holds the validated copy and the validated normalized form of the record at that
  position, its diagnostics, and the status \<open>verified\<close>.\<close>

lemma determine_validation_status_verified:
  "fst (determine_validation_status a) = ''verified''"
  by (simp add: determine_validation_status_def Let_def)

lemma validate_loop_results:
  "validate_loop b as db acc = Inr (db', rs) \<Longrightarrow>
     \<exists>new. rs = acc @ new
       \<and> list_all2
            (\<lambda>a r. status r = ''verified''
               \<and> AddressOutputSchema_model_validate
                    (original_output_of (AddressInputSchema_model_dump a))
                   = Inr (original_address r)
               \<and> AddressOutputSchema_model_validate
                    (normalize_address_data (AddressInputSchema_model_dump a))
                   = Inr (matched_address r)
               \<and> messages r = snd (determine_validation_status a))
            as new"
proof (induction as arbitrary: db acc)
  case Nil
  then show ?case by simp
next
  case (Cons a as)
  let ?d = "AddressInputSchema_model_dump a"
  obtain st msgs where sm: "determine_validation_status a = (st, msgs)"
    by (cases "determine_validation_status a")
  have st: "st = ''verified''"
    using determine_validation_status_verified [of a] sm by simp
  from Cons.prems sm obtain orig matched r db1 where
    o: "AddressOutputSchema_model_validate (original_output_of ?d) = Inr orig" and
    m: "AddressOutputSchema_model_validate (normalize_address_data ?d) = Inr matched" and
    r: "ValidationResultSchema_new st orig matched msgs = Inr r" and
    l: "validate_loop b as db1 (acc @ [r]) = Inr (db', rs)"
    by (auto simp add: bindE_def Let_def split: sum.splits)
  from Cons.IH [OF l] obtain new where
    new: "rs = (acc @ [r]) @ new" and
    all: "list_all2
            (\<lambda>a r. status r = ''verified''
               \<and> AddressOutputSchema_model_validate
                    (original_output_of (AddressInputSchema_model_dump a))
                   = Inr (original_address r)
               \<and> AddressOutputSchema_model_validate
                    (normalize_address_data (AddressInputSchema_model_dump a))
                   = Inr (matched_address r)
               \<and> messages r = snd (determine_validation_status a))
            as new"
    by blast
  have f: "status r = ''verified''" "original_address r = orig" "matched_address r = matched"
    "messages r = msgs"
    using r st by (auto simp add: ValidationResultSchema_new_def split: if_splits)
  show ?case
    using new all f o m sm by (intro exI [of _ "r # new"]) simp
qed

lemma validate_and_store_results:
  assumes "validate_and_store_addresses db addresses = (Inr (batch_id, results), db')"
  shows "list_all2
           (\<lambda>a r. status r = ''verified''
              \<and> AddressOutputSchema_model_validate
                   (original_output_of (AddressInputSchema_model_dump a))
                  = Inr (original_address r)
              \<and> AddressOutputSchema_model_validate
                   (normalize_address_data (AddressInputSchema_model_dump a))
                  = Inr (matched_address r)
              \<and> messages r = snd (determine_validation_status a))
           addresses results"
proof -
  from assms obtain db1 where
    "validate_loop (uuid4_next db) addresses db1 [] = Inr (db', results)"
    by (auto simp add: validate_and_store_addresses_def insert_validation_batch_def Let_def
        split: sum.splits)
  from validate_loop_results [OF this] show ?thesis by simp
qed

text \<open>The batch of a synchronous call that returns is stored with status
  \<open>completed\<close> and the submitted records as its payload.\<close>

lemma validate_and_store_batch_row:
  assumes "validate_and_store_addresses db addresses = (Inr (batch_id, results), db')"
  shows "batch_id = uuid4_next db
       \<and> address_validation_batches db'
           = address_validation_batches db @
               [\<lparr> vb_id = uuid4_next db, vb_status = ''completed'', vb_created_at = now db,
                  vb_request_payload = Some (map AddressInputSchema_model_dump addresses) \<rparr>]"
  using assms
  by (auto simp add: validate_and_store_addresses_def insert_validation_batch_def Let_def
      split: sum.splits dest!: batches_validate_loop)

text \<open>No record submitted: a batch with status \<open>completed\<close>, an empty payload and no
  item is stored, and its identifier returned with no result.\<close>

lemma validate_and_store_nothing:
  "validate_and_store_addresses db [] =
     (Inr (uuid4_next db, []),
      db \<lparr> address_validation_batches :=
             address_validation_batches db @
               [\<lparr> vb_id = uuid4_next db, vb_status = ''completed'', vb_created_at = now db,
                  vb_request_payload = Some [] \<rparr>],
           uuid4_next := Suc (uuid4_next db) \<rparr>)"
  by (simp add: validate_and_store_addresses_def insert_validation_batch_def)

lemma validate_and_store_nothing_read_back:
  assumes "select_validation_batch db (uuid4_next db) = None"
      and "validation_items_owned db"
  shows "validation_status_of (snd (validate_and_store_addresses db [])) (uuid4_next db)
           = Some ''completed''
       \<and> select_validation_items (snd (validate_and_store_addresses db [])) (uuid4_next db)
           = []"
proof -
  have i: "select_validation_items db (uuid4_next db) = []"
    using assms unknown_batch_has_no_items by blast
  show ?thesis
    using assms(1) i
    by (simp add: validate_and_store_nothing validation_status_of_def
        select_validation_batch_def select_validation_items_def find_append)
qed

lemma recognize_loop_length:
  "recognize_loop batch_id requests db acc = Inr (db', results) \<Longrightarrow>
     length results = length acc + length requests"
proof (induction requests arbitrary: db acc)
  case Nil
  then show ?case by simp
next
  case (Cons a requests)
  from Cons.prems show ?case
    by (auto simp add: bindE_def Let_def split: sum.splits dest!: Cons.IH)
qed

lemma recognize_and_store_length:
  "recognize_and_store_addresses db requests = (Inr (batch_id, results), db') \<Longrightarrow>
     length results = length requests"
  by (auto simp add: recognize_and_store_addresses_def Let_def
      split: sum.splits prod.splits dest!: recognize_loop_length)

lemma blank_line_facts:
  "AddressInputSchema_model_validate (AddressInputSchema_model_dump blank_line) = Inr blank_line"
  "AddressOutputSchema_model_validate
     (original_output_of (AddressInputSchema_model_dump blank_line)) = Inr blank_line"
  "map_of (normalize_address_data (AddressInputSchema_model_dump blank_line)) ''address_line1''
     = Some (JStr [])"
  "AddressOutputSchema_model_validate
     (normalize_address_data (AddressInputSchema_model_dump blank_line)) = Inl ValidationError"
  by code_simp+

text \<open>
  C8 at an input the claim covers. \<open>blank_line\<close> is a record the input schema accepts
  (its \<open>address_line1\<close> is one space). The Transform strips the line to the empty
  string, \<open>AddressOutputSchema.model_validate\<close> rejects the normalized record
  (\<open>min_length=1\<close>), and \<open>validate_and_store_addresses\<close> raises: no result is
  returned and, the transaction being rolled back, no batch is stored. The asynchronous
  routine completes the same record.
\<close>

theorem sync_validation_raises_on_blank_line:
  "AddressInputSchema_model_validate (AddressInputSchema_model_dump blank_line) = Inr blank_line
   \<and> validate_and_store_addresses db [blank_line] = (Inl ValidationError, db)
   \<and> fst (process_batch_validation (snd (create_queued_batch empty_database [blank_line])) 0)
       = Inr ()
   \<and> validation_status_of
         (snd (process_batch_validation (snd (create_queued_batch empty_database [blank_line])) 0))
         0
       = Some ''completed''"
proof -
  have s: "validate_and_store_addresses db [blank_line] = (Inl ValidationError, db)"
    by (simp add: validate_and_store_addresses_def insert_validation_batch_def Let_def
        bindE_def blank_line_facts split: prod.splits)
  have a: "fst (process_batch_validation
                  (snd (create_queued_batch empty_database [blank_line])) 0) = Inr ()"
    "validation_status_of
       (snd (process_batch_validation (snd (create_queued_batch empty_database [blank_line])) 0))
       0
     = Some ''completed''"
    by code_simp+
  show ?thesis
    using s a blank_line_facts(1) by simp
qed

section \<open>Two workers on one recognition batch\<close>

lemma delete_matched_rows:
  "db \<lparr> address_recognition_items :=
          filter (\<lambda>i. i \<notin> set (select_recognition_items db batch_id))
            (address_recognition_items db) \<rparr>
     = delete_recognition_items db batch_id"
proof -
  have "filter (\<lambda>i. i \<notin> set (select_recognition_items db batch_id))
          (address_recognition_items db)
        = filter (\<lambda>i. ri_batch_id i \<noteq> batch_id) (address_recognition_items db)"
    by (rule filter_cong) (auto simp add: select_recognition_items_def)
  then show ?thesis
    by (simp add: delete_recognition_items_def)
qed

text \<open>A worker that runs alone takes the steps of \<open>process_recognition_batch\<close>: four
  steps from \<open>AtGet\<close> end where the routine ends, with the store the routine
  leaves.\<close>

lemma recognition_steps_alone:
  "recognition_step batch_id (recognition_step batch_id (recognition_step batch_id
     (recognition_step batch_id (AtGet, db))))
   = ((case fst (process_recognition_batch db batch_id) of
         Inl e \<Rightarrow> Raised e
       | Inr u \<Rightarrow> Returned),
      snd (process_recognition_batch db batch_id))"
proof (cases "get_recognition_batch db batch_id")
  case None
  then show ?thesis
    by (simp add: process_recognition_batch_def)
next
  case (Some b)
  show ?thesis
  proof (cases "rb_status b \<in> set [''processing'', ''completed'']")
    case True
    then show ?thesis
      using Some by (simp add: process_recognition_batch_def)
  next
    case False
    let ?payload = "case rb_request_payload b of None \<Rightarrow> [] | Some p \<Rightarrow> p"
    show ?thesis
    proof (cases "?payload = []")
      case True
      then show ?thesis
        using Some False by (simp add: process_recognition_batch_def)
    next
      case nonempty: False
      let ?db1 = "update_recognition_status db batch_id ''processing''"
      show ?thesis
      proof (cases "mapE RecognitionRequestSchema_model_validate ?payload")
        case (Inl e)
        then show ?thesis
          using Some False nonempty by (simp add: process_recognition_batch_def)
      next
        case (Inr requests)
        then show ?thesis
          using Some False nonempty delete_matched_rows [of ?db1 batch_id]
          by (simp add: process_recognition_batch_def Let_def)
      qed
    qed
  qed
qed

text \<open>
  C2 on the recognition kind. \<open>queued_store\<close> holds the recognition batch 1, queued
  with one request. Two workers receive its identifier and take their steps in turn.
  Both read the batch before either commits, so both pass the status guard; both commit
  \<open>processing\<close>, both run their \<open>DELETE\<close> while the batch has no item, and both
  commit their items. Each has made a full pass, and the batch ends \<open>completed\<close> with
  two item rows for its one request. A worker alone leaves one row.
\<close>

theorem recognition_workers_both_process:
  "(case interleave 1 [False, True, False, True, False, True, False, True]
           (AtGet, AtGet, queued_store) of
      (w1, w2, db) \<Rightarrow>
        w1 = Returned \<and> w2 = Returned
        \<and> recognition_status_of db 1 = Some ''completed''
        \<and> length (select_recognition_items db 1) = 2)
   \<and> recognition_status_of queued_store 1 = Some ''queued''
   \<and> length (recognition_payload_of queued_store 1) = 1
   \<and> length (select_recognition_items (snd (process_recognition_batch queued_store 1)) 1) = 1"
  by code_simp

end
